theory Spec2Isabelle
  imports Complex_Main
begin

section \<open>Python values and errors\<close>

text \<open>
  Python integers are unbounded and are modelled as \<open>int\<close>; \<open>//\<close> and \<open>%\<close> on them
  are floor division and floor modulus, which is what \<open>div\<close> and \<open>mod\<close> are on \<open>int\<close>,
  except that Python raises \<open>ZeroDivisionError\<close> on a zero divisor. Every exception
  of the source is a value of \<open>error\<close>; the string carried by an error names the
  message of the \<open>raise\<close> statement it comes from.
\<close>

datatype error =
    ValueError string
  | RuntimeError string
  | ZeroDivisionError
  | IndexError

text \<open>
  A Python number that is either a \<open>float\<close> (idealised as a real) or a \<open>complex\<close>:
  \<open>x ** -0.5\<close> is a float for a positive integer \<open>x\<close>, a complex number for a
  negative one and raises \<open>ZeroDivisionError\<close> for \<open>0\<close>.
\<close>

datatype pynum = PyFloat real | PyComplex complex

definition pow_neg_half :: "int \<Rightarrow> error + pynum" where
  "pow_neg_half x =
     (if x = 0 then Inl ZeroDivisionError
      else if 0 < x then Inr (PyFloat (real_of_int x powr (- 1 / 2)))
      else Inr (PyComplex (inverse (csqrt (of_int x)))))"

text \<open>\<open>torch.arange(start, end)\<close> on integers: an empty range is allowed, a reversed one raises.\<close>

definition arange2 :: "int \<Rightarrow> int \<Rightarrow> error + int list" where
  "arange2 lo hi =
     (if hi < lo then Inl (RuntimeError ''upper bound and larger bound inconsistent with step sign'')
      else Inr (map (\<lambda>k. lo + int k) [0..<nat (hi - lo)]))"

definition arange :: "int \<Rightarrow> error + int list" where
  "arange n = arange2 0 n"

text \<open>\<open>x.repeat_interleave(k)\<close>: every element \<open>k\<close> times in a row; a negative \<open>k\<close> raises.\<close>

definition repeat_interleave :: "'a list \<Rightarrow> int \<Rightarrow> error + 'a list" where
  "repeat_interleave xs k =
     (if k < 0 then Inl (RuntimeError ''repeats can not be negative'')
      else Inr (concat (map (replicate (nat k)) xs)))"

text \<open>\<open>x.repeat(k)\<close> on a one-dimensional tensor: the whole tensor \<open>k\<close> times; a negative \<open>k\<close> raises.\<close>

definition repeat :: "'a list \<Rightarrow> int \<Rightarrow> error + 'a list" where
  "repeat xs k =
     (if k < 0 then Inl (RuntimeError ''negative dimension'')
      else Inr (concat (replicate (nat k) xs)))"

section \<open>flash_llama_modeling.py: the attention layer\<close>

text \<open>
  The fields of the model configuration that \<open>FlashLlamaAttention\<close> and
  \<open>FlashLlamaLayer\<close> read. \<open>attention_multiplier\<close> and \<open>residual_multiplier\<close> are read
  with \<open>getattr(config, name, default)\<close>: \<open>None\<close> is the attribute being absent.
\<close>

record llama_config =
  cfg_num_attention_heads :: int
  cfg_num_key_value_heads :: int
  cfg_hidden_size :: int
  cfg_attention_multiplier :: "pynum option"
  cfg_residual_multiplier :: "real option"

text \<open>
  What the constructor sees of \<open>weights\<close>: the size of the process group, and the
  outcome of loading the projections from the checkpoint (\<open>load_attention\<close>,
  \<open>get_kv_scales\<close>, \<open>TensorParallelRowLinear.load\<close>), whose code is outside the
  repository files at hand: \<open>None\<close> when they load, the exception otherwise.
\<close>

record weights =
  process_group_size :: int
  load_failure :: "error option"

text \<open>The attributes \<open>FlashLlamaAttention.__init__\<close> sets on \<open>self\<close>.\<close>

record flash_llama_attention =
  num_heads :: int
  hidden_size :: int
  head_size :: int
  softmax_scale :: pynum
  num_key_value_heads :: int
  num_groups :: int
  kv_head_mapping :: "int list"

text \<open>
  The tail of the constructor: \<open>num_groups\<close> and the head-mapping table
  \<open>torch.arange(0, num_key_value_heads).repeat_interleave(num_groups)\<close>.
\<close>

definition build_kv_head_mapping :: "int \<Rightarrow> int \<Rightarrow> error + int \<times> int list" where
  "build_kv_head_mapping nh nkv =
     (if nkv = 0 then Inl ZeroDivisionError
      else (case arange2 0 nkv of
              Inl e \<Rightarrow> Inl e
            | Inr heads \<Rightarrow>
                (case repeat_interleave heads (nh div nkv) of
                   Inl e \<Rightarrow> Inl e
                 | Inr mapping \<Rightarrow> Inr (nh div nkv, mapping))))"

definition FlashLlamaAttention_init :: "llama_config \<Rightarrow> weights \<Rightarrow> error + flash_llama_attention" where
  "FlashLlamaAttention_init config w =
     (if cfg_num_attention_heads config = 0 then Inl ZeroDivisionError
      else (case pow_neg_half (cfg_hidden_size config div cfg_num_attention_heads config) of
              Inl e \<Rightarrow> Inl e
            | Inr dflt \<Rightarrow>
                if process_group_size w = 0 then Inl ZeroDivisionError
                else if cfg_num_attention_heads config mod process_group_size w \<noteq> 0
                  then Inl (ValueError ''num_heads must be divisible by num_shards'')
                else if cfg_num_key_value_heads config mod process_group_size w \<noteq> 0
                  then Inl (ValueError ''num_key_value_heads must be divisible by num_shards'')
                else (case load_failure w of
                        Some e \<Rightarrow> Inl e
                      | None \<Rightarrow>
                         (case build_kv_head_mapping
                                 (cfg_num_attention_heads config div process_group_size w)
                                 (cfg_num_key_value_heads config div process_group_size w) of
                            Inl e \<Rightarrow> Inl e
                          | Inr (ng, mapping) \<Rightarrow>
                              Inr \<lparr> num_heads = cfg_num_attention_heads config div process_group_size w,
                                    hidden_size = cfg_hidden_size config,
                                    head_size = cfg_hidden_size config div cfg_num_attention_heads config,
                                    softmax_scale =
                                      (case cfg_attention_multiplier config of
                                         Some m \<Rightarrow> m | None \<Rightarrow> dflt),
                                    num_key_value_heads =
                                      cfg_num_key_value_heads config div process_group_size w,
                                    num_groups = ng,
                                    kv_head_mapping = mapping \<rparr>))))"

text \<open>
  \<open>FlashLlamaAttention.forward\<close> computes nothing itself: it calls, in program order,
  the projection, the rotary embedding, the cache store, one attention kernel and the
  output projection, all of them collaborators of the layer. The model is the sequence
  of these calls, each with the arguments the layer chooses: the slots given to the
  store, the softmax scale given to either kernel, and the head-mapping table given to
  the paged kernel.
\<close>

datatype call =
    QueryKeyValue
  | RotaryEmb
  | KVCacheStore "int list"
  | Attention pynum
  | PagedAttention "int list" pynum
  | OProj

definition FlashLlamaAttention_forward ::
    "flash_llama_attention \<Rightarrow> 'c option \<Rightarrow> int list \<Rightarrow> call list" where
  "FlashLlamaAttention_forward self cu_seqlen_prefill slots =
     [QueryKeyValue, RotaryEmb, KVCacheStore slots] @
     (case cu_seqlen_prefill of
        Some _ \<Rightarrow> [Attention (softmax_scale self)]
      | None \<Rightarrow> [PagedAttention (kv_head_mapping self) (softmax_scale self)]) @
     [OProj]"

fun is_store :: "call \<Rightarrow> bool" where
  "is_store (KVCacheStore _) = True"
| "is_store _ = False"

fun is_dense_read :: "call \<Rightarrow> bool" where
  "is_dense_read (Attention _) = True"
| "is_dense_read _ = False"

fun is_paged_read :: "call \<Rightarrow> bool" where
  "is_paged_read (PagedAttention _ _) = True"
| "is_paged_read _ = False"

text \<open>The softmax scale and the head-mapping table an attention kernel is called with.\<close>

fun scale_of :: "call \<Rightarrow> pynum option" where
  "scale_of (Attention s) = Some s"
| "scale_of (PagedAttention _ s) = Some s"
| "scale_of _ = None"

fun mapping_of :: "call \<Rightarrow> int list option" where
  "mapping_of (PagedAttention m _) = Some m"
| "mapping_of _ = None"

text \<open>
  \<open>store_before P cs\<close>: the calls \<open>cs\<close> hold a cache store, a call satisfying \<open>P\<close>
  comes after it, and none comes before it.
\<close>

fun store_before :: "(call \<Rightarrow> bool) \<Rightarrow> call list \<Rightarrow> bool" where
  "store_before P [] = False"
| "store_before P (c # cs) =
     (if is_store c then list_ex P cs else \<not> P c \<and> store_before P cs)"

section \<open>flash_llama_modeling.py: the decoder layer\<close>

text \<open>
  A tensor of activations is the list of its entries; \<open>x *= m\<close> scales every entry.
  The norms, the attention and the MLP (or MoE) of a layer are functions fixed by the
  loaded weights. A norm takes the input and the running residual (\<open>None\<close> before the
  first layer) and returns the normed value and the new residual. \<open>'c\<close> stands for
  the arguments the layer only passes on (\<open>cos\<close>, \<open>sin\<close>, \<open>cu_seqlen_prefill\<close>,
  \<open>kv_cache\<close>, \<open>slots\<close>, \<open>seqlen\<close>, \<open>adapter_data\<close>, \<open>hpu_attention_meta\<close>).
\<close>

type_synonym tensor = "real list"

definition imul :: "tensor \<Rightarrow> real \<Rightarrow> tensor" where
  "imul x m = map (\<lambda>v. v * m) x"

record 'c flash_llama_layer =
  self_attn :: "tensor \<Rightarrow> 'c \<Rightarrow> tensor"
  mlp :: "tensor \<Rightarrow> 'c \<Rightarrow> tensor"
  input_layernorm :: "tensor \<Rightarrow> tensor option \<Rightarrow> tensor \<times> tensor"
  post_attention_layernorm :: "tensor \<Rightarrow> tensor option \<Rightarrow> tensor \<times> tensor"
  residual_multiplier :: "real option"

text \<open>
  \<open>FlashLlamaLayer.__init__\<close>: the attention layer is constructed first (and may
  raise), the modules are loaded, and \<open>residual_multiplier\<close> is
  \<open>getattr(config, "residual_multiplier", None)\<close>.
\<close>

definition FlashLlamaLayer_init ::
    "llama_config \<Rightarrow> weights \<Rightarrow> (tensor \<Rightarrow> 'c \<Rightarrow> tensor) \<Rightarrow> (tensor \<Rightarrow> 'c \<Rightarrow> tensor) \<Rightarrow>
     (tensor \<Rightarrow> tensor option \<Rightarrow> tensor \<times> tensor) \<Rightarrow> (tensor \<Rightarrow> tensor option \<Rightarrow> tensor \<times> tensor) \<Rightarrow>
     error + 'c flash_llama_layer" where
  "FlashLlamaLayer_init config w attn_fn mlp_fn norm1 norm2 =
     (case FlashLlamaAttention_init config w of
        Inl e \<Rightarrow> Inl e
      | Inr _ \<Rightarrow>
          Inr \<lparr> self_attn = attn_fn, mlp = mlp_fn, input_layernorm = norm1,
                post_attention_layernorm = norm2,
                residual_multiplier = cfg_residual_multiplier config \<rparr>)"

definition FlashLlamaLayer_forward ::
    "'c flash_llama_layer \<Rightarrow> tensor \<Rightarrow> tensor option \<Rightarrow> 'c \<Rightarrow> tensor \<times> tensor" where
  "FlashLlamaLayer_forward self hidden_states residual args =
     (let (normed_hidden_states, res) = input_layernorm self hidden_states residual;
          attn_output = self_attn self normed_hidden_states args;
          attn_output = (case residual_multiplier self of
                           Some m \<Rightarrow> imul attn_output m
                         | None \<Rightarrow> attn_output);
          (normed_attn_res_output, attn_res) =
             post_attention_layernorm self attn_output (Some res);
          mlp_output = mlp self normed_attn_res_output args;
          mlp_output = (case residual_multiplier self of
                          Some m \<Rightarrow> imul mlp_output m
                        | None \<Rightarrow> mlp_output)
      in (mlp_output, attn_res))"

section \<open>models/__init__.py: the sliding-window guard of get_model\<close>

text \<open>
  Lines 654 to 667 of \<open>get_model\<close>. \<open>config_sliding_window\<close> is
  \<open>config_dict.get("sliding_window")\<close>, \<open>max_input_tokens\<close> may be \<open>None\<close>, and
  \<open>SUPPORTS_WINDOWING\<close> is the module-level flag of the attention backend.
\<close>

definition sliding_window_guard :: "int option \<Rightarrow> int option \<Rightarrow> bool \<Rightarrow> error + unit" where
  "sliding_window_guard config_sliding_window max_input_tokens SUPPORTS_WINDOWING =
     (let sliding_window = (case config_sliding_window of Some s \<Rightarrow> s | None \<Rightarrow> - 1);
          use_sliding_window = (sliding_window \<noteq> - 1);
          needs_sliding_window =
            (case max_input_tokens of Some m \<Rightarrow> m > sliding_window | None \<Rightarrow> False)
      in if use_sliding_window \<and> needs_sliding_window \<and> \<not> SUPPORTS_WINDOWING
         then Inl (ValueError ''The backend does not support sliding window attention'')
         else Inr ())"

text \<open>
  What \<open>get_model\<close> has resolved when it reaches line 639: whether anything before
  raised (dtype, kv-cache dtype, speculator set-up), the model type and whether the
  configuration has \<open>ssm_cfg\<close>, the quantization method, and the arguments the guard
  reads.
\<close>

record get_model_state =
  earlier_failure :: "error option"
  model_type :: "string option"
  has_ssm_cfg :: bool
  quantize :: "string option"
  sharded :: bool
  config_sliding_window :: "int option"
  max_input_tokens :: "int option"

text \<open>
  \<open>get_model\<close> from line 639 on. \<open>dispatch\<close> stands for the chain of
  \<open>if model_type == ...\<close> branches after the guard (lines 668 to 1839), which
  constructs and returns the model or raises; a model exists, and can be called, only
  when \<open>get_model\<close> returns one.
\<close>

definition get_model ::
    "get_model_state \<Rightarrow> bool \<Rightarrow> (string \<Rightarrow> error + 'm) \<Rightarrow> error + 'm" where
  "get_model st SUPPORTS_WINDOWING dispatch =
     (case earlier_failure st of
        Some e \<Rightarrow> Inl e
      | None \<Rightarrow>
          if model_type st = None \<and> \<not> has_ssm_cfg st
            then Inl (RuntimeError ''Could not determine model type'')
          else if quantize st = Some ''exl2'' \<and> sharded st
            then Inl (RuntimeError ''Sharding is currently not supported with exl2 quantization'')
          else (case sliding_window_guard (config_sliding_window st) (max_input_tokens st)
                       SUPPORTS_WINDOWING of
                  Inl e \<Rightarrow> Inl e
                | Inr _ \<Rightarrow>
                    dispatch (case model_type st of Some t \<Rightarrow> t | None \<Rightarrow> ''mamba'')))"

section \<open>qwen2_vl.py: multimodal position ids\<close>

text \<open>
  A one-dimensional integer tensor is an \<open>int list\<close>; a two-dimensional one is the
  list of its rows. \<open>then_e\<close> runs the next step unless the last one raised.
\<close>

definition then_e :: "error + 'a \<Rightarrow> ('a \<Rightarrow> error + 'b) \<Rightarrow> error + 'b" where
  "then_e m f = (case m of Inl e \<Rightarrow> Inl e | Inr x \<Rightarrow> f x)"

fun sequence_e :: "(error + 'a) list \<Rightarrow> error + 'a list" where
  "sequence_e [] = Inr []"
| "sequence_e (m # ms) = then_e m (\<lambda>x. then_e (sequence_e ms) (\<lambda>xs. Inr (x # xs)))"

text \<open>\<open>torch.where(xs == v)[0]\<close>: the indices holding \<open>v\<close>, ascending.\<close>

definition where_eq :: "int list \<Rightarrow> int \<Rightarrow> int list" where
  "where_eq xs v = map int (filter (\<lambda>i. xs ! i = v) [0..<length xs])"

text \<open>
  An elementwise operation on two one-dimensional tensors with torch's broadcasting:
  equal sizes, or one of them of size one; anything else raises.
\<close>

definition broadcast2 :: "(int \<Rightarrow> int \<Rightarrow> int) \<Rightarrow> int list \<Rightarrow> int list \<Rightarrow> error + int list" where
  "broadcast2 f xs ys =
     (if length xs = length ys then Inr (map2 f xs ys)
      else if length xs = 1 then Inr (map (f (hd xs)) ys)
      else if length ys = 1 then Inr (map (\<lambda>x. f x (hd ys)) xs)
      else Inl (RuntimeError ''The size of tensor a must match the size of tensor b''))"

fun cumsum_from :: "int \<Rightarrow> int list \<Rightarrow> int list" where
  "cumsum_from acc [] = []"
| "cumsum_from acc (x # xs) = (acc + x) # cumsum_from (acc + x) xs"

definition cumsum :: "int list \<Rightarrow> int list" where
  "cumsum xs = cumsum_from 0 xs"

text \<open>\<open>a // b\<close> on integer tensors: floor division; a zero divisor raises.\<close>

definition floor_divide :: "int \<Rightarrow> int \<Rightarrow> error + int" where
  "floor_divide a b = (if b = 0 then Inl (RuntimeError ''ZeroDivisionError'') else Inr (a div b))"

definition add_scalar :: "int list list \<Rightarrow> int \<Rightarrow> int list list" where
  "add_scalar m c = map (map (\<lambda>x. x + c)) m"

text \<open>\<open>x.max()\<close> over all entries of a tensor; an empty tensor raises.\<close>

definition tensor_max :: "int list list \<Rightarrow> error + int" where
  "tensor_max m =
     (case concat m of
        [] \<Rightarrow> Inl (RuntimeError ''max(): Expected reduction dim to be specified for input.numel() == 0'')
      | x # xs \<Rightarrow> Inr (fold max xs x))"

text \<open>\<open>torch.cat(ts, dim=1)\<close> of tensors with three rows each.\<close>

definition cat_dim1 :: "int list list list \<Rightarrow> int list list" where
  "cat_dim1 ts = map (\<lambda>r. concat (map (\<lambda>t. t ! r) ts)) [0..<3]"

text \<open>\<open>m.transpose(0, 1)\<close> of a tensor whose rows have equal length.\<close>

definition transpose_01 :: "int list list \<Rightarrow> int list list" where
  "transpose_01 m = (case m of [] \<Rightarrow> [] | r # _ \<Rightarrow> map (\<lambda>k. map (\<lambda>row. row ! k) m) [0..<length r])"

text \<open>
  The position ids of one vision segment of extents \<open>t\<close>, \<open>h\<close>, \<open>w\<close> (after the spatial
  merge), before the offset: \<open>torch.stack([t_indices, h_indices, w_indices], dim=0)\<close>.
\<close>

definition image_position_ids :: "int \<Rightarrow> int \<Rightarrow> int \<Rightarrow> error + int list list" where
  "image_position_ids t h w =
     then_e (arange t) (\<lambda>ts.
     then_e (repeat_interleave ts (h * w)) (\<lambda>t_indices.
     then_e (arange h) (\<lambda>hs.
     then_e (repeat_interleave hs w) (\<lambda>hs_w.
     then_e (repeat hs_w t) (\<lambda>h_indices.
     then_e (arange w) (\<lambda>ws.
     then_e (repeat ws (t * h)) (\<lambda>w_indices.
     Inr [t_indices, h_indices, w_indices])))))))"

text \<open>
  The three offset vectors computed before the loops (lines 425 to 438):
  \<open>text_lengths_between_vision\<close>, \<open>vision_segment_lengths\<close> and
  \<open>text_segment_lengths\<close>.
\<close>

definition segment_offsets ::
    "int \<Rightarrow> int list \<Rightarrow> int list \<Rightarrow> (int \<times> int \<times> int) list \<Rightarrow>
     error + int list \<times> int list \<times> int list" where
  "segment_offsets spatial_merge_size vision_starts vision_ends image_grid_thw =
     (if length vision_starts \<noteq> length vision_ends
        then Inl (RuntimeError ''stack expects each tensor to be equal size'')
      else
        then_e (broadcast2 (\<lambda>s p. s - p + 1) vision_starts (0 # butlast vision_ends))
          (\<lambda>text_lengths_between_vision.
        then_e (sequence_e (map (\<lambda>(t, h, w). floor_divide w spatial_merge_size)
                               (butlast image_grid_thw)))
          (\<lambda>widths.
        then_e (broadcast2 (+) (0 # widths) text_lengths_between_vision)
          (\<lambda>steps.
        then_e (broadcast2 (-) (cumsum steps) text_lengths_between_vision)
          (\<lambda>text_segment_lengths.
        Inr (text_lengths_between_vision, cumsum steps, text_segment_lengths))))))"

text \<open>One pass of the loop over the vision segments (lines 442 to 455).\<close>

definition vision_segment_ids ::
    "int \<Rightarrow> (int \<times> int \<times> int) list \<Rightarrow> int list \<Rightarrow> nat \<Rightarrow> error + int list list" where
  "vision_segment_ids spatial_merge_size image_grid_thw vision_segment_lengths i =
     (if length image_grid_thw \<le> i then Inl IndexError
      else (case image_grid_thw ! i of
              (t, h0, w0) \<Rightarrow>
                then_e (floor_divide h0 spatial_merge_size) (\<lambda>h.
                then_e (floor_divide w0 spatial_merge_size) (\<lambda>w.
                then_e (image_position_ids t h w) (\<lambda>image_position_ids.
                Inr (add_scalar image_position_ids (vision_segment_lengths ! i)))))))"

text \<open>One element of \<open>text_ranges\<close> (lines 458 to 462).\<close>

definition text_range :: "int list \<Rightarrow> int list \<Rightarrow> nat \<Rightarrow> error + int list list" where
  "text_range text_lengths_between_vision text_segment_lengths i =
     then_e (arange (text_lengths_between_vision ! i)) (\<lambda>r.
     Inr (add_scalar (replicate 3 r) (text_segment_lengths ! i)))"

text \<open>
  Lines 464 to 476: the text and vision segments alternate, the trailing text
  continues from the maximum of the last vision segment, and the result is transposed
  to one row per token.
\<close>

definition combine_segments ::
    "nat \<Rightarrow> int list \<Rightarrow> int list list list \<Rightarrow> int list list list \<Rightarrow> error + int list list" where
  "combine_segments input_ids_len vision_ends text_ranges llm_pos_ids_list =
     (let full_llm_pos_ids_list = concat (map2 (\<lambda>a b. [a, b]) text_ranges llm_pos_ids_list) in
      if full_llm_pos_ids_list = [] then Inl IndexError
      else
        then_e (tensor_max (last full_llm_pos_ids_list)) (\<lambda>mx.
        then_e (if int input_ids_len - last vision_ends > 0
                then then_e (arange (int input_ids_len - last vision_ends)) (\<lambda>r.
                       Inr (full_llm_pos_ids_list @ [add_scalar (replicate 3 r) (mx + 1)]))
                else Inr full_llm_pos_ids_list) (\<lambda>full.
        Inr (transpose_01 (cat_dim1 full)))))"

definition get_position_ids ::
    "int \<Rightarrow> int \<Rightarrow> int \<Rightarrow> int list \<Rightarrow> (int \<times> int \<times> int) list option \<Rightarrow> error + int list list" where
  "get_position_ids spatial_merge_size vision_start_token_id vision_end_token_id
      input_ids image_grid_thw =
     (case image_grid_thw of
        None \<Rightarrow> then_e (arange (int (length input_ids))) (\<lambda>r. Inr (map (replicate 3) r))
      | Some grid \<Rightarrow>
          (let vision_starts = where_eq input_ids vision_start_token_id;
               vision_ends = where_eq input_ids vision_end_token_id
           in then_e (segment_offsets spatial_merge_size vision_starts vision_ends grid)
                (\<lambda>(text_lengths_between_vision, vision_segment_lengths, text_segment_lengths).
              then_e (sequence_e (map (vision_segment_ids spatial_merge_size grid
                                         vision_segment_lengths)
                                      [0..<length vision_starts]))
                (\<lambda>llm_pos_ids_list.
              then_e (sequence_e (map (text_range text_lengths_between_vision
                                         text_segment_lengths)
                                      [0..<length text_lengths_between_vision]))
                (\<lambda>text_ranges.
              combine_segments (length input_ids) vision_ends
                text_ranges llm_pos_ids_list)))))"

text \<open>
  An input whose vision runs match its grids: the spatial merge size is not zero; there
  is at least one grid, and as many start markers and as many end markers as grids;
  every grid has positive extents after the merge; the run between the \<open>i\<close>-th start
  marker and the \<open>i\<close>-th end marker holds exactly \<open>t * (h div s) * (w div s)\<close> tokens
  for the \<open>i\<close>-th grid \<open>(t, h, w)\<close>; and every end marker comes before the next start
  marker.
\<close>

definition vision_runs_match ::
    "int \<Rightarrow> int \<Rightarrow> int \<Rightarrow> int list \<Rightarrow> (int \<times> int \<times> int) list \<Rightarrow> bool" where
  "vision_runs_match spatial_merge_size vision_start_token_id vision_end_token_id
      input_ids grid =
     (let vision_starts = where_eq input_ids vision_start_token_id;
          vision_ends = where_eq input_ids vision_end_token_id
      in spatial_merge_size \<noteq> 0 \<and> grid \<noteq> [] \<and>
         length vision_starts = length grid \<and> length vision_ends = length grid \<and>
         list_all (\<lambda>i. case grid ! i of
                          (t, h, w) \<Rightarrow>
                            0 < t \<and> 0 < h div spatial_merge_size \<and> 0 < w div spatial_merge_size \<and>
                            vision_ends ! i - vision_starts ! i - 1 =
                              t * (h div spatial_merge_size) * (w div spatial_merge_size))
                  [0..<length grid] \<and>
         list_all (\<lambda>i. vision_ends ! i < vision_starts ! (i + 1)) [0..<length grid - 1])"

section \<open>qwen2_vl.py: the attention mask of the vision tower\<close>

text \<open>
  \<open>Qwen2VisionModel.forward\<close>, lines 330 to 334: the cumulative sequence lengths
  (one segment of \<open>h * w\<close> patches per temporal frame of every grid, a leading zero
  padded on) and \<open>max_seqlen\<close>, the largest difference of two neighbours. The
  \<open>int32\<close> of the cumulative sum is modelled without wrap-around.
\<close>

definition vision_cu_seqlens :: "(int \<times> int \<times> int) list \<Rightarrow> error + int list \<times> int" where
  "vision_cu_seqlens grid_thw =
     then_e (sequence_e (map (\<lambda>(t, h, w). repeat_interleave [h * w] t) grid_thw)) (\<lambda>lens.
     let cu_seqlens = 0 # cumsum (concat lens) in
     then_e (tensor_max [map2 (\<lambda>a b. a - b) (tl cu_seqlens) (butlast cu_seqlens)]) (\<lambda>max_seqlen.
     Inr (cu_seqlens, max_seqlen)))"

text \<open>
  A slice bound \<open>k\<close> on a dimension of size \<open>n\<close>, as Python reads it: a negative
  bound counts from the end, and the result is clamped to \<open>0..n\<close>.
\<close>

definition slice_bound :: "nat \<Rightarrow> int \<Rightarrow> nat" where
  "slice_bound n k = (if k < 0 then nat (max 0 (k + int n)) else min (nat k) n)"

text \<open>\<open>attention_mask[:, lo:hi, lo:hi] = True\<close> on a square mask.\<close>

definition set_block :: "bool list list \<Rightarrow> int \<Rightarrow> int \<Rightarrow> bool list list" where
  "set_block m lo hi =
     (let n = length m; a = slice_bound n lo; b = slice_bound n hi in
      map (\<lambda>r. map (\<lambda>c. if a \<le> r \<and> r < b \<and> a \<le> c \<and> c < b then True else m ! r ! c)
                  [0..<n])
          [0..<n])"

text \<open>
  \<open>Qwen2VLAttention.forward\<close>, lines 121 to 127: a mask of
  \<open>max_seqlen\<close> by \<open>max_seqlen\<close> entries, all \<open>False\<close>, then one block per pair of
  neighbouring entries of \<open>cu_seqlens\<close>. The kernel is called with \<open>is_causal=False\<close>.
\<close>

definition attention_mask :: "int list \<Rightarrow> int \<Rightarrow> error + bool list list" where
  "attention_mask cu_seqlens max_seqlen =
     (if max_seqlen < 0 then Inl (RuntimeError ''Trying to create tensor with negative dimension'')
      else Inr (fold (\<lambda>i m. set_block m (cu_seqlens ! (i - 1)) (cu_seqlens ! i))
                     [1..<length cu_seqlens]
                     (replicate (nat max_seqlen) (replicate (nat max_seqlen) False))))"

text \<open>
  Whether the mask lets position \<open>i\<close> attend to position \<open>j\<close>: the mask must have the
  entry, and the entry must be \<open>True\<close>.
\<close>

definition permitted :: "bool list list \<Rightarrow> nat \<Rightarrow> nat \<Rightarrow> bool" where
  "permitted m i j = (i < length m \<and> j < length (m ! i) \<and> m ! i ! j)"

text \<open>Whether positions \<open>i\<close> and \<open>j\<close> lie in the same segment of \<open>cu_seqlens\<close>.\<close>

definition same_segment :: "int list \<Rightarrow> nat \<Rightarrow> nat \<Rightarrow> bool" where
  "same_segment cu_seqlens i j =
     list_ex (\<lambda>k. cu_seqlens ! (k - 1) \<le> int i \<and> int i < cu_seqlens ! k \<and>
                  cu_seqlens ! (k - 1) \<le> int j \<and> int j < cu_seqlens ! k)
             [1..<length cu_seqlens]"

section \<open>The attention layer: construction\<close>

lemma pow_neg_half_pos: "0 < x \<Longrightarrow> pow_neg_half x = Inr (PyFloat (1 / sqrt (real_of_int x)))"
proof -
  assume pos: "0 < x"
  have "real_of_int x powr (- 1 / 2) = inverse (real_of_int x powr (1 / 2))"
    using powr_minus [of "real_of_int x" "1 / 2"] by simp
  also have "\<dots> = 1 / sqrt (real_of_int x)"
    using pos by (simp add: powr_half_sqrt inverse_eq_divide)
  finally show ?thesis using pos by (simp add: pow_neg_half_def)
qed

lemma pow_neg_half_nonzero: "x \<noteq> 0 \<Longrightarrow> \<exists>d. pow_neg_half x = Inr d"
  by (cases "0 < x") (simp_all add: pow_neg_half_def)

lemma concat_replicate_nth:
  "q < length xs * g \<Longrightarrow> concat (map (replicate g) xs) ! q = xs ! (q div g)"
proof (induction xs arbitrary: q)
  case Nil
  then show ?case by simp
next
  case (Cons x xs)
  show ?case
  proof (cases "q < g")
    case True
    then show ?thesis by (simp add: nth_append)
  next
    case False
    then have ge: "g \<le> q" by simp
    from Cons.prems have g0: "0 < g" by (cases g) auto
    from Cons.prems ge have "q - g < length xs * g" by simp
    then have IH: "concat (map (replicate g) xs) ! (q - g) = xs ! ((q - g) div g)"
      by (rule Cons.IH)
    have "q div g = Suc ((q - g) div g)"
      using ge g0 by (simp add: le_div_geq)
    then show ?thesis using False IH by (simp add: nth_append)
  qed
qed

lemma build_kv_head_mapping_ok:
  assumes "build_kv_head_mapping nh nkv = Inr (ng, mapping)"
  shows "0 < nkv \<and> 0 \<le> nh div nkv \<and> ng = nh div nkv \<and>
         mapping = concat (map (replicate (nat (nh div nkv))) (map int [0..<nat nkv]))"
  using assms
  by (auto simp: build_kv_head_mapping_def arange2_def repeat_interleave_def
           split: if_splits)

lemma build_kv_head_mapping_total:
  assumes "0 < nkv" and "0 \<le> nh div nkv"
  shows "build_kv_head_mapping nh nkv =
           Inr (nh div nkv, concat (map (replicate (nat (nh div nkv))) (map int [0..<nat nkv])))"
  using assms
  by (simp add: build_kv_head_mapping_def arange2_def repeat_interleave_def)

lemma init_fields:
  assumes "FlashLlamaAttention_init config w = Inr L"
  shows "process_group_size w \<noteq> 0"
    and "cfg_num_attention_heads config \<noteq> 0"
    and "cfg_num_attention_heads config mod process_group_size w = 0"
    and "cfg_num_key_value_heads config mod process_group_size w = 0"
    and "num_heads L = cfg_num_attention_heads config div process_group_size w"
    and "num_key_value_heads L = cfg_num_key_value_heads config div process_group_size w"
    and "head_size L = cfg_hidden_size config div cfg_num_attention_heads config"
    and "\<exists>dflt. pow_neg_half (head_size L) = Inr dflt \<and>
           softmax_scale L = (case cfg_attention_multiplier config of Some m \<Rightarrow> m | None \<Rightarrow> dflt)"
    and "build_kv_head_mapping (num_heads L) (num_key_value_heads L) = Inr (num_groups L, kv_head_mapping L)"
  using assms
  by (auto simp: FlashLlamaAttention_init_def split: if_splits sum.splits option.splits prod.splits)

lemma init_example:
  "FlashLlamaAttention_init
     \<lparr> cfg_num_attention_heads = 32, cfg_num_key_value_heads = 8, cfg_hidden_size = 4096,
       cfg_attention_multiplier = None, cfg_residual_multiplier = None \<rparr>
     \<lparr> process_group_size = 4, load_failure = None \<rparr>
   = Inr \<lparr> num_heads = 8, hidden_size = 4096, head_size = 128,
           softmax_scale = PyFloat (1 / sqrt 128), num_key_value_heads = 2, num_groups = 4,
           kv_head_mapping = [0, 0, 0, 0, 1, 1, 1, 1] \<rparr>"
proof -
  have b: "build_kv_head_mapping 8 2 = Inr (4, [0, 0, 0, 0, 1, 1, 1, 1])"
    by code_simp
  have p: "pow_neg_half 128 = Inr (PyFloat (1 / sqrt 128))"
    using pow_neg_half_pos [of 128] by simp
  show ?thesis
    by (simp add: FlashLlamaAttention_init_def b p)
qed

lemma init_example_granite:
  "FlashLlamaAttention_init
     \<lparr> cfg_num_attention_heads = 32, cfg_num_key_value_heads = 8, cfg_hidden_size = 4096,
       cfg_attention_multiplier = Some (PyFloat (1 / 128)), cfg_residual_multiplier = Some (11 / 50) \<rparr>
     \<lparr> process_group_size = 4, load_failure = None \<rparr>
   = Inr \<lparr> num_heads = 8, hidden_size = 4096, head_size = 128,
           softmax_scale = PyFloat (1 / 128), num_key_value_heads = 2, num_groups = 4,
           kv_head_mapping = [0, 0, 0, 0, 1, 1, 1, 1] \<rparr>"
proof -
  have b: "build_kv_head_mapping 8 2 = Inr (4, [0, 0, 0, 0, 1, 1, 1, 1])"
    by code_simp
  have p: "pow_neg_half 128 = Inr (PyFloat (1 / sqrt 128))"
    using pow_neg_half_pos [of 128] by simp
  show ?thesis
    by (simp add: FlashLlamaAttention_init_def b p)
qed

text \<open>
  Claim C2. Constructing the attention layer succeeds only when both
  \<open>num_attention_heads\<close> and \<open>num_key_value_heads\<close> are divisible by the size of the
  process group; when either is not, construction fails. For a configuration with a
  non-zero head size and a non-zero process-group size the failure is the
  \<open>ValueError\<close> of the divisibility check (the configuration error of the layer):
  the one about \<open>num_heads\<close> when the head count is not divisible, the one about
  \<open>num_key_value_heads\<close> when only the key/value head count is not.
\<close>

theorem sharding_validation:
  "(FlashLlamaAttention_init config w = Inr L \<longrightarrow>
      process_group_size w \<noteq> 0 \<and>
      cfg_num_attention_heads config mod process_group_size w = 0 \<and>
      cfg_num_key_value_heads config mod process_group_size w = 0) \<and>
   (cfg_num_attention_heads config mod process_group_size w \<noteq> 0 \<or>
    cfg_num_key_value_heads config mod process_group_size w \<noteq> 0 \<longrightarrow>
      (\<exists>e. FlashLlamaAttention_init config w = Inl e)) \<and>
   (process_group_size w \<noteq> 0 \<and> cfg_num_attention_heads config \<noteq> 0 \<and>
    cfg_hidden_size config div cfg_num_attention_heads config \<noteq> 0 \<longrightarrow>
      (cfg_num_attention_heads config mod process_group_size w \<noteq> 0 \<longrightarrow>
         FlashLlamaAttention_init config w =
           Inl (ValueError ''num_heads must be divisible by num_shards'')) \<and>
      (cfg_num_attention_heads config mod process_group_size w = 0 \<and>
       cfg_num_key_value_heads config mod process_group_size w \<noteq> 0 \<longrightarrow>
         FlashLlamaAttention_init config w =
           Inl (ValueError ''num_key_value_heads must be divisible by num_shards'')))"
proof (intro conjI impI)
  assume ok: "FlashLlamaAttention_init config w = Inr L"
  show "process_group_size w \<noteq> 0" by (rule init_fields(1) [OF ok])
  show "cfg_num_attention_heads config mod process_group_size w = 0"
    by (rule init_fields(3) [OF ok])
  show "cfg_num_key_value_heads config mod process_group_size w = 0"
    by (rule init_fields(4) [OF ok])
next
  assume nd: "cfg_num_attention_heads config mod process_group_size w \<noteq> 0 \<or>
              cfg_num_key_value_heads config mod process_group_size w \<noteq> 0"
  show "\<exists>e. FlashLlamaAttention_init config w = Inl e"
  proof (cases "FlashLlamaAttention_init config w")
    case (Inl e)
    then show ?thesis by blast
  next
    case (Inr L')
    from init_fields(3) [OF Inr] init_fields(4) [OF Inr] nd show ?thesis by simp
  qed
next
  assume dom: "process_group_size w \<noteq> 0 \<and> cfg_num_attention_heads config \<noteq> 0 \<and>
               cfg_hidden_size config div cfg_num_attention_heads config \<noteq> 0"
     and nd: "cfg_num_attention_heads config mod process_group_size w \<noteq> 0"
  from dom obtain d where "pow_neg_half (cfg_hidden_size config div cfg_num_attention_heads config) = Inr d"
    using pow_neg_half_nonzero by blast
  with dom nd show "FlashLlamaAttention_init config w =
      Inl (ValueError ''num_heads must be divisible by num_shards'')"
    by (simp add: FlashLlamaAttention_init_def)
next
  assume dom: "process_group_size w \<noteq> 0 \<and> cfg_num_attention_heads config \<noteq> 0 \<and>
               cfg_hidden_size config div cfg_num_attention_heads config \<noteq> 0"
     and nd: "cfg_num_attention_heads config mod process_group_size w = 0 \<and>
              cfg_num_key_value_heads config mod process_group_size w \<noteq> 0"
  from dom obtain d where "pow_neg_half (cfg_hidden_size config div cfg_num_attention_heads config) = Inr d"
    using pow_neg_half_nonzero by blast
  with dom nd show "FlashLlamaAttention_init config w =
      Inl (ValueError ''num_key_value_heads must be divisible by num_shards'')"
    by (simp add: FlashLlamaAttention_init_def)
qed

theorem sharding_validation_witness:
  "FlashLlamaAttention_init
     \<lparr> cfg_num_attention_heads = 32, cfg_num_key_value_heads = 8, cfg_hidden_size = 4096,
       cfg_attention_multiplier = None, cfg_residual_multiplier = None \<rparr>
     \<lparr> process_group_size = 3, load_failure = None \<rparr>
     = Inl (ValueError ''num_heads must be divisible by num_shards'') \<and>
   FlashLlamaAttention_init
     \<lparr> cfg_num_attention_heads = 32, cfg_num_key_value_heads = 8, cfg_hidden_size = 4096,
       cfg_attention_multiplier = None, cfg_residual_multiplier = None \<rparr>
     \<lparr> process_group_size = 16, load_failure = None \<rparr>
     = Inl (ValueError ''num_key_value_heads must be divisible by num_shards'')"
  using sharding_validation
     [of "\<lparr> cfg_num_attention_heads = 32, cfg_num_key_value_heads = 8, cfg_hidden_size = 4096,
            cfg_attention_multiplier = None, cfg_residual_multiplier = None \<rparr>"
         "\<lparr> process_group_size = 3, load_failure = None \<rparr>"]
    sharding_validation
     [of "\<lparr> cfg_num_attention_heads = 32, cfg_num_key_value_heads = 8, cfg_hidden_size = 4096,
            cfg_attention_multiplier = None, cfg_residual_multiplier = None \<rparr>"
         "\<lparr> process_group_size = 16, load_failure = None \<rparr>"]
  by simp

section \<open>The attention layer: forward\<close>

text \<open>
  Claim C3. In every forward call of the attention layer, in prefill mode
  (\<open>cu_seqlen_prefill\<close> given) and in decode mode (\<open>cu_seqlen_prefill\<close> is \<open>None\<close>)
  alike, the cache store at the supplied slots comes before the attention read:
  before the dense attention call in prefill, which then is the only read, and before
  the paged attention call in decode, which then is the only read. There is exactly
  one store, and it is given the slots of the call.
\<close>

theorem store_precedes_attention_read:
  "store_before is_dense_read (FlashLlamaAttention_forward L (Some cu) slots) \<and>
   \<not> list_ex is_paged_read (FlashLlamaAttention_forward L (Some cu) slots) \<and>
   store_before is_paged_read (FlashLlamaAttention_forward L None slots) \<and>
   \<not> list_ex is_dense_read (FlashLlamaAttention_forward L None slots) \<and>
   filter is_store (FlashLlamaAttention_forward L c slots) = [KVCacheStore slots]"
  by (cases c) (simp_all add: FlashLlamaAttention_forward_def)

text \<open>
  Claim C4. When the per-rank number of key/value heads divides the per-rank number
  of query heads, the head-mapping table built by the constructor has one entry per
  query head, and maps query head \<open>q\<close> to key/value head
  \<open>q div (num_heads div num_key_value_heads)\<close>: contiguous groups of
  \<open>num_heads div num_key_value_heads\<close> query heads share one key/value head. The
  decode-mode attention call is given exactly this table.
\<close>

theorem kv_head_mapping_groups:
  assumes "FlashLlamaAttention_init config w = Inr L"
    and "num_key_value_heads L dvd num_heads L"
  shows "length (kv_head_mapping L) = nat (num_heads L) \<and>
         (\<forall>q < nat (num_heads L).
            kv_head_mapping L ! q = int q div (num_heads L div num_key_value_heads L)) \<and>
         List.map_filter mapping_of (FlashLlamaAttention_forward L None slots) =
           [kv_head_mapping L]"
proof -
  let ?nh = "num_heads L" and ?nkv = "num_key_value_heads L"
  from init_fields(9) [OF assms(1)]
  have b: "build_kv_head_mapping ?nh ?nkv = Inr (num_groups L, kv_head_mapping L)" .
  from build_kv_head_mapping_ok [OF b]
  have pos: "0 < ?nkv" and g0: "0 \<le> ?nh div ?nkv"
    and m: "kv_head_mapping L = concat (map (replicate (nat (?nh div ?nkv))) (map int [0..<nat ?nkv]))"
    by simp_all
  from assms(2) have prod: "?nkv * (?nh div ?nkv) = ?nh" by simp
  have len: "length (kv_head_mapping L) = nat ?nkv * nat (?nh div ?nkv)"
    unfolding m by (simp add: length_concat comp_def sum_list_triv)
  have "nat ?nkv * nat (?nh div ?nkv) = nat (?nkv * (?nh div ?nkv))"
    using pos g0 by (simp add: nat_mult_distrib)
  with prod len have L1: "length (kv_head_mapping L) = nat ?nh" by simp
  have L2: "\<forall>q < nat ?nh. kv_head_mapping L ! q = int q div (?nh div ?nkv)"
  proof (intro allI impI)
    fix q assume q: "q < nat ?nh"
    with L1 len have q': "q < length (map int [0..<nat ?nkv]) * nat (?nh div ?nkv)"
      by simp
    then have gpos: "0 < nat (?nh div ?nkv)" by (cases "nat (?nh div ?nkv)") auto
    from q' have "q div nat (?nh div ?nkv) < nat ?nkv"
      using gpos by (simp add: less_mult_imp_div_less)
    then have "map int [0..<nat ?nkv] ! (q div nat (?nh div ?nkv)) = int (q div nat (?nh div ?nkv))"
      by simp
    moreover have "int (q div nat (?nh div ?nkv)) = int q div (?nh div ?nkv)"
      using g0 by (simp add: zdiv_int)
    ultimately show "kv_head_mapping L ! q = int q div (?nh div ?nkv)"
      unfolding m using concat_replicate_nth [OF q'] by simp
  qed
  have L3: "List.map_filter mapping_of (FlashLlamaAttention_forward L None slots) =
           [kv_head_mapping L]"
    by (simp add: FlashLlamaAttention_forward_def)
  from L1 L2 L3 show ?thesis by blast
qed

theorem kv_head_mapping_groups_witness:
  "FlashLlamaAttention_init
     \<lparr> cfg_num_attention_heads = 32, cfg_num_key_value_heads = 8, cfg_hidden_size = 4096,
       cfg_attention_multiplier = None, cfg_residual_multiplier = None \<rparr>
     \<lparr> process_group_size = 4, load_failure = None \<rparr>
   = Inr \<lparr> num_heads = 8, hidden_size = 4096, head_size = 128,
           softmax_scale = PyFloat (1 / sqrt 128), num_key_value_heads = 2, num_groups = 4,
           kv_head_mapping = [0, 0, 0, 0, 1, 1, 1, 1] \<rparr> \<and>
   (2::int) dvd 8 \<and>
   length [0, 0, 0, 0, 1, 1, 1, 1 :: int] = nat 8 \<and>
   [0, 0, 0, 0, 1, 1, 1, 1 :: int] ! 5 = int 5 div (8 div 2) \<and>
   List.map_filter mapping_of
     (FlashLlamaAttention_forward
        \<lparr> num_heads = 8, hidden_size = 4096, head_size = 128,
          softmax_scale = PyFloat (1 / sqrt 128), num_key_value_heads = 2, num_groups = 4,
          kv_head_mapping = [0, 0, 0, 0, 1, 1, 1, 1] \<rparr> (None :: unit option) [7])
     = [[0, 0, 0, 0, 1, 1, 1, 1]]"
  using kv_head_mapping_groups [OF init_example, of "[7]"] init_example
  by (simp add: FlashLlamaAttention_forward_def)

text \<open>
  Claim C7. The softmax scale of an attention layer is fixed by the constructor: it is
  the configuration's \<open>attention_multiplier\<close> when it has one, and otherwise
  \<open>1 / sqrt head_size\<close> with \<open>head_size = hidden_size div num_attention_heads\<close>
  (Python's float is read as a real number). The attention kernel of every forward
  call, dense or paged, is given this value. The first part speaks of any layer the
  constructor returns; the second says that for a configuration with a positive head
  size, head counts divisible by a non-zero process-group size, at least one
  key/value head per rank and weights that load, the constructor does return a layer,
  with this scale.
\<close>

theorem softmax_scale_choice:
  "(FlashLlamaAttention_init config w = Inr L \<longrightarrow>
      head_size L = cfg_hidden_size config div cfg_num_attention_heads config \<and>
      (\<forall>m. cfg_attention_multiplier config = Some m \<longrightarrow> softmax_scale L = m) \<and>
      (cfg_attention_multiplier config = None \<and> 0 < head_size L \<longrightarrow>
         softmax_scale L = PyFloat (1 / sqrt (real_of_int (head_size L)))) \<and>
      List.map_filter scale_of (FlashLlamaAttention_forward L cu_seqlen_prefill slots) =
        [softmax_scale L]) \<and>
   (cfg_num_attention_heads config \<noteq> 0 \<and>
    0 < cfg_hidden_size config div cfg_num_attention_heads config \<and>
    process_group_size w \<noteq> 0 \<and>
    cfg_num_attention_heads config mod process_group_size w = 0 \<and>
    cfg_num_key_value_heads config mod process_group_size w = 0 \<and>
    load_failure w = None \<and>
    0 < cfg_num_key_value_heads config div process_group_size w \<and>
    0 \<le> (cfg_num_attention_heads config div process_group_size w) div
          (cfg_num_key_value_heads config div process_group_size w) \<longrightarrow>
      (\<exists>L'. FlashLlamaAttention_init config w = Inr L' \<and>
            head_size L' = cfg_hidden_size config div cfg_num_attention_heads config \<and>
            softmax_scale L' =
              (case cfg_attention_multiplier config of
                 Some m \<Rightarrow> m
               | None \<Rightarrow> PyFloat (1 / sqrt (real_of_int
                           (cfg_hidden_size config div cfg_num_attention_heads config)))) \<and>
            List.map_filter scale_of (FlashLlamaAttention_forward L' cu_seqlen_prefill slots) =
              [softmax_scale L']))"
proof -
  have first: "head_size L = cfg_hidden_size config div cfg_num_attention_heads config \<and>
      (\<forall>m. cfg_attention_multiplier config = Some m \<longrightarrow> softmax_scale L = m) \<and>
      (cfg_attention_multiplier config = None \<and> 0 < head_size L \<longrightarrow>
         softmax_scale L = PyFloat (1 / sqrt (real_of_int (head_size L)))) \<and>
      List.map_filter scale_of (FlashLlamaAttention_forward L cu_seqlen_prefill slots) =
        [softmax_scale L]"
    if ok: "FlashLlamaAttention_init config w = Inr L"
  proof -
    from init_fields(8) [OF ok] obtain dflt where
      d: "pow_neg_half (head_size L) = Inr dflt" and
      s: "softmax_scale L = (case cfg_attention_multiplier config of Some m \<Rightarrow> m | None \<Rightarrow> dflt)"
      by blast
    have A: "\<forall>m. cfg_attention_multiplier config = Some m \<longrightarrow> softmax_scale L = m"
      using s by simp
    have B: "cfg_attention_multiplier config = None \<and> 0 < head_size L \<longrightarrow>
            softmax_scale L = PyFloat (1 / sqrt (real_of_int (head_size L)))"
      using s d pow_neg_half_pos [of "head_size L"] by auto
    have C: "List.map_filter scale_of (FlashLlamaAttention_forward L cu_seqlen_prefill slots) =
            [softmax_scale L]"
      by (cases cu_seqlen_prefill) (simp_all add: FlashLlamaAttention_forward_def)
    from init_fields(7) [OF ok] A B C show ?thesis by blast
  qed
  have second: "\<exists>L'. FlashLlamaAttention_init config w = Inr L' \<and>
            head_size L' = cfg_hidden_size config div cfg_num_attention_heads config \<and>
            softmax_scale L' =
              (case cfg_attention_multiplier config of
                 Some m \<Rightarrow> m
               | None \<Rightarrow> PyFloat (1 / sqrt (real_of_int
                           (cfg_hidden_size config div cfg_num_attention_heads config)))) \<and>
            List.map_filter scale_of (FlashLlamaAttention_forward L' cu_seqlen_prefill slots) =
              [softmax_scale L']"
    if wf: "cfg_num_attention_heads config \<noteq> 0 \<and>
      0 < cfg_hidden_size config div cfg_num_attention_heads config \<and>
      process_group_size w \<noteq> 0 \<and>
      cfg_num_attention_heads config mod process_group_size w = 0 \<and>
      cfg_num_key_value_heads config mod process_group_size w = 0 \<and>
      load_failure w = None \<and>
      0 < cfg_num_key_value_heads config div process_group_size w \<and>
      0 \<le> (cfg_num_attention_heads config div process_group_size w) div
            (cfg_num_key_value_heads config div process_group_size w)"
  proof -
    let ?hs = "cfg_hidden_size config div cfg_num_attention_heads config"
    let ?nh = "cfg_num_attention_heads config div process_group_size w"
    let ?nkv = "cfg_num_key_value_heads config div process_group_size w"
    from wf have p: "pow_neg_half ?hs = Inr (PyFloat (1 / sqrt (real_of_int ?hs)))"
      by (intro pow_neg_half_pos) simp
    from wf have b: "build_kv_head_mapping ?nh ?nkv =
        Inr (?nh div ?nkv, concat (map (replicate (nat (?nh div ?nkv))) (map int [0..<nat ?nkv])))"
      by (intro build_kv_head_mapping_total) simp_all
    define L' where "L' =
       \<lparr> num_heads = ?nh, hidden_size = cfg_hidden_size config, head_size = ?hs,
         softmax_scale = (case cfg_attention_multiplier config of
                            Some m \<Rightarrow> m
                          | None \<Rightarrow> PyFloat (1 / sqrt (real_of_int ?hs))),
         num_key_value_heads = ?nkv, num_groups = ?nh div ?nkv,
         kv_head_mapping = concat (map (replicate (nat (?nh div ?nkv))) (map int [0..<nat ?nkv])) \<rparr>"
    have i: "FlashLlamaAttention_init config w = Inr L'"
      using wf unfolding L'_def by (simp add: FlashLlamaAttention_init_def p b)
    have f: "List.map_filter scale_of (FlashLlamaAttention_forward L' cu_seqlen_prefill slots) =
            [softmax_scale L']"
      by (cases cu_seqlen_prefill) (simp_all add: FlashLlamaAttention_forward_def)
    have "head_size L' = ?hs" and
         "softmax_scale L' = (case cfg_attention_multiplier config of
                            Some m \<Rightarrow> m
                          | None \<Rightarrow> PyFloat (1 / sqrt (real_of_int ?hs)))"
      unfolding L'_def by simp_all
    with i f show ?thesis by blast
  qed
  from first second show ?thesis by blast
qed

theorem softmax_scale_choice_witness:
  "FlashLlamaAttention_init
     \<lparr> cfg_num_attention_heads = 32, cfg_num_key_value_heads = 8, cfg_hidden_size = 4096,
       cfg_attention_multiplier = None, cfg_residual_multiplier = None \<rparr>
     \<lparr> process_group_size = 4, load_failure = None \<rparr>
   = Inr \<lparr> num_heads = 8, hidden_size = 4096, head_size = 128,
           softmax_scale = PyFloat (1 / sqrt 128), num_key_value_heads = 2, num_groups = 4,
           kv_head_mapping = [0, 0, 0, 0, 1, 1, 1, 1] \<rparr> \<and>
   FlashLlamaAttention_init
     \<lparr> cfg_num_attention_heads = 32, cfg_num_key_value_heads = 8, cfg_hidden_size = 4096,
       cfg_attention_multiplier = Some (PyFloat (1 / 128)),
       cfg_residual_multiplier = Some (11 / 50) \<rparr>
     \<lparr> process_group_size = 4, load_failure = None \<rparr>
   = Inr \<lparr> num_heads = 8, hidden_size = 4096, head_size = 128,
           softmax_scale = PyFloat (1 / 128), num_key_value_heads = 2, num_groups = 4,
           kv_head_mapping = [0, 0, 0, 0, 1, 1, 1, 1] \<rparr> \<and>
   (\<exists>L'. FlashLlamaAttention_init
           \<lparr> cfg_num_attention_heads = 32, cfg_num_key_value_heads = 8, cfg_hidden_size = 4096,
             cfg_attention_multiplier = None, cfg_residual_multiplier = None \<rparr>
           \<lparr> process_group_size = 4, load_failure = None \<rparr> = Inr L' \<and>
         head_size L' = 128 \<and>
         softmax_scale L' = PyFloat (1 / sqrt 128) \<and>
         List.map_filter scale_of (FlashLlamaAttention_forward L' (Some ()) [7]) =
           [PyFloat (1 / sqrt 128)]) \<and>
   (\<exists>L'. FlashLlamaAttention_init
           \<lparr> cfg_num_attention_heads = 32, cfg_num_key_value_heads = 8, cfg_hidden_size = 4096,
             cfg_attention_multiplier = Some (PyFloat (1 / 128)),
             cfg_residual_multiplier = Some (11 / 50) \<rparr>
           \<lparr> process_group_size = 4, load_failure = None \<rparr> = Inr L' \<and>
         softmax_scale L' = PyFloat (1 / 128) \<and>
         List.map_filter scale_of (FlashLlamaAttention_forward L' (None :: unit option) [7]) =
           [PyFloat (1 / 128)])"
proof -
  have A: "\<exists>L'. FlashLlamaAttention_init
           \<lparr> cfg_num_attention_heads = 32, cfg_num_key_value_heads = 8, cfg_hidden_size = 4096,
             cfg_attention_multiplier = None, cfg_residual_multiplier = None \<rparr>
           \<lparr> process_group_size = 4, load_failure = None \<rparr> = Inr L' \<and>
         head_size L' = 128 \<and>
         softmax_scale L' = PyFloat (1 / sqrt 128) \<and>
         List.map_filter scale_of (FlashLlamaAttention_forward L' (Some ()) [7]) =
           [PyFloat (1 / sqrt 128)]"
    using softmax_scale_choice [THEN conjunct2, rule_format,
       of "\<lparr> cfg_num_attention_heads = 32, cfg_num_key_value_heads = 8, cfg_hidden_size = 4096,
             cfg_attention_multiplier = None, cfg_residual_multiplier = None \<rparr>"
          "\<lparr> process_group_size = 4, load_failure = None \<rparr>" "Some ()" "[7]"]
    by auto
  have B: "\<exists>L'. FlashLlamaAttention_init
           \<lparr> cfg_num_attention_heads = 32, cfg_num_key_value_heads = 8, cfg_hidden_size = 4096,
             cfg_attention_multiplier = Some (PyFloat (1 / 128)),
             cfg_residual_multiplier = Some (11 / 50) \<rparr>
           \<lparr> process_group_size = 4, load_failure = None \<rparr> = Inr L' \<and>
         softmax_scale L' = PyFloat (1 / 128) \<and>
         List.map_filter scale_of (FlashLlamaAttention_forward L' (None :: unit option) [7]) =
           [PyFloat (1 / 128)]"
    using softmax_scale_choice [THEN conjunct2, rule_format,
       of "\<lparr> cfg_num_attention_heads = 32, cfg_num_key_value_heads = 8, cfg_hidden_size = 4096,
             cfg_attention_multiplier = Some (PyFloat (1 / 128)),
             cfg_residual_multiplier = Some (11 / 50) \<rparr>"
          "\<lparr> process_group_size = 4, load_failure = None \<rparr>" "None :: unit option" "[7]"]
    by auto
  from init_example init_example_granite A B show ?thesis by blast
qed

section \<open>The decoder layer\<close>

text \<open>
  Claim C8. The forward of a decoder layer is the composition: pre-norm of the input
  and the running residual; attention on the normed value; post-norm of the attention
  output and the residual, whose second result is the residual returned; MLP (or MoE)
  on the second normed value; the result is the MLP output and that residual. With a
  residual multiplier both the attention output (before the post-norm) and the MLP
  output (before it is returned) are multiplied by it; without one neither is scaled.
  The multiplier of the layer is the \<open>residual_multiplier\<close> of the configuration.
\<close>

theorem decoder_layer_composition:
  "(residual_multiplier self = None \<longrightarrow>
      FlashLlamaLayer_forward self hidden_states residual args =
        (let pre = input_layernorm self hidden_states residual;
             post = post_attention_layernorm self (self_attn self (fst pre) args) (Some (snd pre))
         in (mlp self (fst post) args, snd post))) \<and>
   (\<forall>m. residual_multiplier self = Some m \<longrightarrow>
      FlashLlamaLayer_forward self hidden_states residual args =
        (let pre = input_layernorm self hidden_states residual;
             post = post_attention_layernorm self
                      (imul (self_attn self (fst pre) args) m) (Some (snd pre))
         in (imul (mlp self (fst post) args) m, snd post))) \<and>
   (FlashLlamaLayer_init config w attn_fn mlp_fn norm1 norm2 = Inr self \<longrightarrow>
      residual_multiplier self = cfg_residual_multiplier config)"
  by (auto simp: FlashLlamaLayer_forward_def FlashLlamaLayer_init_def Let_def
           split: prod.splits sum.splits)

theorem decoder_layer_composition_witness:
  "FlashLlamaLayer_forward
     \<lparr> self_attn = (\<lambda>x c. map (\<lambda>v. v + 1) x), mlp = (\<lambda>x c. map (\<lambda>v. 2 * v) x),
       input_layernorm = (\<lambda>x r. (x, case r of None \<Rightarrow> x | Some y \<Rightarrow> map2 (+) x y)),
       post_attention_layernorm = (\<lambda>x r. (x, case r of None \<Rightarrow> x | Some y \<Rightarrow> map2 (+) x y)),
       residual_multiplier = None \<rparr> [2] None () = ([6], [5]) \<and>
   FlashLlamaLayer_forward
     \<lparr> self_attn = (\<lambda>x c. map (\<lambda>v. v + 1) x), mlp = (\<lambda>x c. map (\<lambda>v. 2 * v) x),
       input_layernorm = (\<lambda>x r. (x, case r of None \<Rightarrow> x | Some y \<Rightarrow> map2 (+) x y)),
       post_attention_layernorm = (\<lambda>x r. (x, case r of None \<Rightarrow> x | Some y \<Rightarrow> map2 (+) x y)),
       residual_multiplier = Some (1 / 2) \<rparr> [2] None () = ([3 / 2], [7 / 2])"
proof -
  have none: "residual_multiplier
      \<lparr> self_attn = (\<lambda>x c. map (\<lambda>v. v + 1) x), mlp = (\<lambda>x c. map (\<lambda>v. 2 * v) x),
        input_layernorm = (\<lambda>x r. (x, case r of None \<Rightarrow> x | Some y \<Rightarrow> map2 (+) x y)),
        post_attention_layernorm = (\<lambda>x r. (x, case r of None \<Rightarrow> x | Some y \<Rightarrow> map2 (+) x y)),
        residual_multiplier = None \<rparr> = (None :: real option)"
    by simp
  have some: "residual_multiplier
      \<lparr> self_attn = (\<lambda>x c. map (\<lambda>v. v + 1) x), mlp = (\<lambda>x c. map (\<lambda>v. 2 * v) x),
        input_layernorm = (\<lambda>x r. (x, case r of None \<Rightarrow> x | Some y \<Rightarrow> map2 (+) x y)),
        post_attention_layernorm = (\<lambda>x r. (x, case r of None \<Rightarrow> x | Some y \<Rightarrow> map2 (+) x y)),
        residual_multiplier = Some (1 / 2) \<rparr> = Some (1 / 2)"
    by simp
  from decoder_layer_composition [THEN conjunct1, rule_format, OF none, of "[2]" None "()"]
  have A: "FlashLlamaLayer_forward
     \<lparr> self_attn = (\<lambda>x c. map (\<lambda>v. v + 1) x), mlp = (\<lambda>x c. map (\<lambda>v. 2 * v) x),
       input_layernorm = (\<lambda>x r. (x, case r of None \<Rightarrow> x | Some y \<Rightarrow> map2 (+) x y)),
       post_attention_layernorm = (\<lambda>x r. (x, case r of None \<Rightarrow> x | Some y \<Rightarrow> map2 (+) x y)),
       residual_multiplier = None \<rparr> [2] None () = ([6], [5])"
    by (simp add: Let_def)
  from decoder_layer_composition [THEN conjunct2, THEN conjunct1, rule_format, OF some,
         of "[2]" None "()"]
  have B: "FlashLlamaLayer_forward
     \<lparr> self_attn = (\<lambda>x c. map (\<lambda>v. v + 1) x), mlp = (\<lambda>x c. map (\<lambda>v. 2 * v) x),
       input_layernorm = (\<lambda>x r. (x, case r of None \<Rightarrow> x | Some y \<Rightarrow> map2 (+) x y)),
       post_attention_layernorm = (\<lambda>x r. (x, case r of None \<Rightarrow> x | Some y \<Rightarrow> map2 (+) x y)),
       residual_multiplier = Some (1 / 2) \<rparr> [2] None () = ([3 / 2], [7 / 2])"
    by (simp add: Let_def imul_def)
  from A B show ?thesis by blast
qed

section \<open>Model selection\<close>

text \<open>
  Claim C6. When the configuration has a sliding window other than \<open>-1\<close>,
  \<open>max_input_tokens\<close> exceeds it and the backend does not support windowing, the guard
  raises and \<open>get_model\<close> returns no model, so that no forward call is possible; when
  nothing earlier in \<open>get_model\<close> raised, the error is the sliding-window
  \<open>ValueError\<close>. When one of the conditions fails the guard does not raise, and
  \<open>get_model\<close> does what it does on a backend that supports windowing.
\<close>

theorem sliding_window_rejected_at_selection:
  "(config_sliding_window st = Some s \<and> s \<noteq> - 1 \<and> max_input_tokens st = Some m \<and> m > s \<and>
    \<not> SUPPORTS_WINDOWING \<longrightarrow>
      sliding_window_guard (config_sliding_window st) (max_input_tokens st) SUPPORTS_WINDOWING =
        Inl (ValueError ''The backend does not support sliding window attention'') \<and>
      (\<exists>e. get_model st SUPPORTS_WINDOWING dispatch = Inl e) \<and>
      (earlier_failure st = None \<and> (model_type st \<noteq> None \<or> has_ssm_cfg st) \<and>
       \<not> (quantize st = Some ''exl2'' \<and> sharded st) \<longrightarrow>
         get_model st SUPPORTS_WINDOWING dispatch =
           Inl (ValueError ''The backend does not support sliding window attention''))) \<and>
   (\<not> (\<exists>s m. config_sliding_window st = Some s \<and> s \<noteq> - 1 \<and> max_input_tokens st = Some m \<and>
             m > s \<and> \<not> SUPPORTS_WINDOWING) \<longrightarrow>
      sliding_window_guard (config_sliding_window st) (max_input_tokens st) SUPPORTS_WINDOWING =
        Inr () \<and>
      get_model st SUPPORTS_WINDOWING dispatch = get_model st True dispatch)"
  by (auto simp: sliding_window_guard_def get_model_def Let_def
           split: option.splits sum.splits)

theorem sliding_window_rejected_at_selection_witness:
  "get_model
     \<lparr> earlier_failure = None, model_type = Some ''mistral'', has_ssm_cfg = False,
       quantize = None, sharded = False, config_sliding_window = Some 4096,
       max_input_tokens = Some 8192 \<rparr> False (\<lambda>t. Inr t)
     = Inl (ValueError ''The backend does not support sliding window attention'') \<and>
   get_model
     \<lparr> earlier_failure = None, model_type = Some ''mistral'', has_ssm_cfg = False,
       quantize = None, sharded = False, config_sliding_window = Some 4096,
       max_input_tokens = Some 2048 \<rparr> False (\<lambda>t. Inr t)
     = Inr ''mistral''"
  using sliding_window_rejected_at_selection
     [of "\<lparr> earlier_failure = None, model_type = Some ''mistral'', has_ssm_cfg = False,
            quantize = None, sharded = False, config_sliding_window = Some 4096,
            max_input_tokens = Some 8192 \<rparr>" 4096 8192 False "\<lambda>t. Inr t"]
    sliding_window_rejected_at_selection
     [of "\<lparr> earlier_failure = None, model_type = Some ''mistral'', has_ssm_cfg = False,
            quantize = None, sharded = False, config_sliding_window = Some 4096,
            max_input_tokens = Some 2048 \<rparr>" 4096 8192 False "\<lambda>t. Inr t"]
  by (simp add: get_model_def sliding_window_guard_def)

section \<open>Position ids\<close>

text \<open>
  Claim C5. With no vision grids (\<open>image_grid_thw\<close> is \<open>None\<close>) the position ids of
  an input of \<open>N\<close> tokens are \<open>N\<close> rows of three entries, and row \<open>i\<close> is \<open>i\<close> on the
  temporal, the height and the width axis.
\<close>

theorem text_only_position_ids:
  "get_position_ids spatial_merge_size vision_start_token_id vision_end_token_id input_ids None =
     Inr (map (\<lambda>i. [int i, int i, int i]) [0..<length input_ids])"
  by (simp add: get_position_ids_def then_e_def arange_def arange2_def
        numeral_3_eq_3 comp_def)

lemma filter_eq_index: "filter (\<lambda>i. i = k) [0..<n] = (if k < n then [k] else [])"
  by (induction n) auto

lemma where_eq_single:
  assumes "k < length xs" and "\<forall>i<length xs. (xs ! i = v) = (i = k)"
  shows "where_eq xs v = [int k]"
proof -
  have "filter (\<lambda>i. xs ! i = v) [0..<length xs] = filter (\<lambda>i. i = k) [0..<length xs]"
    using assms(2) by (intro filter_cong) auto
  with assms(1) show ?thesis by (simp add: where_eq_def filter_eq_index)
qed

lemma image_position_ids_1_2_2:
  "image_position_ids 1 2 2 = Inr [[0, 0, 0, 0], [0, 0, 1, 1], [0, 1, 0, 1]]"
  by code_simp

lemma text_range_3: "text_range [3] [0] 0 = Inr [[0, 1, 2], [0, 1, 2], [0, 1, 2]]"
  by code_simp

lemma combine_one_image:
  "combine_segments 9 [7] [[[0, 1, 2], [0, 1, 2], [0, 1, 2]]]
      [[[3, 3, 3, 3], [3, 3, 4, 4], [3, 4, 3, 4]]] =
   Inr [[0, 0, 0], [1, 1, 1], [2, 2, 2], [3, 3, 3], [3, 3, 4], [3, 4, 3], [3, 4, 4],
        [5, 5, 5], [6, 6, 6]]"
  by code_simp

lemma row_major_1_2_2:
  "[[3 + a, 3 + b, 3 + c]. a \<leftarrow> [0..1 - 1], b \<leftarrow> [0..2 - 1], c \<leftarrow> [0..2 - 1]] =
   [[3, 3, 3], [3, 3, 4], [3, 4, 3], [3, 4, 4 :: int]]"
  by code_simp

text \<open>
  Claim C1. Take nine tokens with the vision-start marker at index 2 only and the
  vision-end marker at index 7 only: three leading text tokens (the start marker is
  the third), four vision tokens at indices 3 to 6, and two trailing text tokens (the
  end marker is the first). For one grid whose extents after the spatial merge are
  \<open>t = 1\<close>, \<open>h = 2\<close>, \<open>w = 2\<close> the position ids are: \<open>0, 1, 2\<close> on all three axes for
  the leading text; for the vision tokens, rows 3 to 6, the row-major product of
  \<open>range(t)\<close>, \<open>range(h)\<close> and \<open>range(w)\<close> (temporal slowest) offset by 3; and for
  the trailing text the ids that continue from the maximum of the vision ids plus one,
  which is 5.
\<close>

theorem one_image_position_ids:
  assumes "length input_ids = 9"
    and "\<forall>i<length input_ids. (input_ids ! i = vision_start_token_id) = (i = 2)"
    and "\<forall>i<length input_ids. (input_ids ! i = vision_end_token_id) = (i = 7)"
    and "spatial_merge_size \<noteq> 0"
    and "h div spatial_merge_size = 2" and "w div spatial_merge_size = 2"
  shows "get_position_ids spatial_merge_size vision_start_token_id vision_end_token_id
           input_ids (Some [(1, h, w)]) =
         Inr ([[0, 0, 0], [1, 1, 1], [2, 2, 2]] @
              [[3 + a, 3 + b, 3 + c]. a \<leftarrow> [0..1 - 1], b \<leftarrow> [0..2 - 1], c \<leftarrow> [0..2 - 1]] @
              [[5, 5, 5], [6, 6, 6]]) \<and>
         Max (set (concat [[3 + a, 3 + b, 3 + c].
                            a \<leftarrow> [0..1 - 1], b \<leftarrow> [0..2 - 1], c \<leftarrow> [0..2 - 1]])) + 1 = (5::int)"
proof -
  have s: "where_eq input_ids vision_start_token_id = [2]"
    using where_eq_single [of 2 input_ids vision_start_token_id] assms(1,2) by simp
  have e: "where_eq input_ids vision_end_token_id = [7]"
    using where_eq_single [of 7 input_ids vision_end_token_id] assms(1,3) by simp
  have off: "segment_offsets spatial_merge_size [2] [7] [(1, h, w)] = Inr ([3], [3], [0])"
    by (simp add: segment_offsets_def broadcast2_def then_e_def cumsum_def)
  have vis: "vision_segment_ids spatial_merge_size [(1, h, w)] [3] 0 =
               Inr [[3, 3, 3, 3], [3, 3, 4, 4], [3, 4, 3, 4]]"
    using assms(4,5,6)
    by (simp add: vision_segment_ids_def floor_divide_def then_e_def
          image_position_ids_1_2_2 add_scalar_def)
  have "get_position_ids spatial_merge_size vision_start_token_id vision_end_token_id
           input_ids (Some [(1, h, w)]) =
        Inr [[0, 0, 0], [1, 1, 1], [2, 2, 2], [3, 3, 3], [3, 3, 4], [3, 4, 3], [3, 4, 4],
             [5, 5, 5], [6, 6, 6]]"
    using assms(1)
    by (simp add: get_position_ids_def s e off vis text_range_3 combine_one_image then_e_def)
  moreover have "Max (set (concat [[3, 3, 3], [3, 3, 4], [3, 4, 3], [3, 4, 4 :: int]])) + 1 = 5"
    by simp
  ultimately show ?thesis by (simp only: row_major_1_2_2 append.simps) 
qed

theorem one_image_position_ids_witness:
  "get_position_ids 2 151652 151653
     [10, 11, 151652, 151655, 151655, 151655, 151655, 151653, 12] (Some [(1, 4, 4)]) =
   Inr [[0, 0, 0], [1, 1, 1], [2, 2, 2], [3, 3, 3], [3, 3, 4], [3, 4, 3], [3, 4, 4],
        [5, 5, 5], [6, 6, 6]]"
proof -
  have a: "\<forall>i<length [10, 11, 151652, 151655, 151655, 151655, 151655, 151653, 12 :: int].
             ([10, 11, 151652, 151655, 151655, 151655, 151655, 151653, 12 :: int] ! i = 151652)
               = (i = 2)"
    by (simp add: eval_nat_numeral All_less_Suc)
  have b: "\<forall>i<length [10, 11, 151652, 151655, 151655, 151655, 151655, 151653, 12 :: int].
             ([10, 11, 151652, 151655, 151655, 151655, 151655, 151653, 12 :: int] ! i = 151653)
               = (i = 7)"
    by (simp add: eval_nat_numeral All_less_Suc)
  have len: "length [10, 11, 151652, 151655, 151655, 151655, 151655, 151653, 12 :: int] = 9"
    by simp
  have nz: "(2::int) \<noteq> 0" and d: "(4::int) div 2 = 2"
    by simp_all
  from one_image_position_ids [OF len a b nz d d, unfolded row_major_1_2_2]
  show ?thesis by simp
qed

section \<open>Position ids: the number of rows\<close>

lemma sequence_e_map_Inr:
  "(\<And>x. x \<in> set xs \<Longrightarrow> f x = Inr (g x)) \<Longrightarrow> sequence_e (map f xs) = Inr (map g xs)"
  by (induction xs) (simp_all add: then_e_def)

lemma arange_nonneg: "0 \<le> n \<Longrightarrow> arange n = Inr (map int [0..<nat n])"
  by (simp add: arange_def arange2_def)

lemma repeat_interleave_nonneg:
  "0 \<le> k \<Longrightarrow> repeat_interleave xs k = Inr (concat (map (replicate (nat k)) xs))"
  by (simp add: repeat_interleave_def)

lemma repeat_nonneg: "0 \<le> k \<Longrightarrow> repeat xs k = Inr (concat (replicate (nat k) xs))"
  by (simp add: repeat_def)

lemma length_concat_map_replicate:
  "length (concat (map (replicate k) xs)) = length xs * k"
  by (induction xs) simp_all

lemma length_concat_map_replicate_comp:
  "length (concat (map (replicate k \<circ> f) xs)) = length xs * k"
  by (induction xs) simp_all

lemma length_concat_replicate: "length (concat (replicate k xs)) = k * length xs"
  by (induction k) simp_all

lemma image_position_ids_lengths:
  assumes "0 \<le> t" "0 \<le> h" "0 \<le> w"
  shows "\<exists>a b c. image_position_ids t h w = Inr [a, b, c] \<and>
           length a = nat (t * h * w) \<and> length b = nat (t * h * w) \<and> length c = nat (t * h * w)"
proof -
  have hw: "0 \<le> h * w" and th: "0 \<le> t * h" using assms by simp_all
  have n: "nat (t * h * w) = nat t * (nat h * nat w)"
    using assms by (simp add: nat_mult_distrib mult.assoc)
  have e: "image_position_ids t h w =
      Inr [concat (map (replicate (nat (h * w))) (map int [0..<nat t])),
           concat (replicate (nat t) (concat (map (replicate (nat w)) (map int [0..<nat h])))),
           concat (replicate (nat (t * h)) (map int [0..<nat w]))]"
    by (simp only: image_position_ids_def then_e_def arange_nonneg [OF assms(1)]
          arange_nonneg [OF assms(2)] arange_nonneg [OF assms(3)]
          repeat_interleave_nonneg [OF hw] repeat_interleave_nonneg [OF assms(3)]
          repeat_nonneg [OF assms(1)] repeat_nonneg [OF th] sum.case)
  have "nat (h * w) = nat h * nat w" "nat (t * h) = nat t * nat h"
    using assms by (simp_all add: nat_mult_distrib)
  then show ?thesis
    unfolding e by (simp add: length_concat_map_replicate length_concat_map_replicate_comp
          length_concat_replicate n)
qed

lemma tensor_max_nonempty: "concat m \<noteq> [] \<Longrightarrow> \<exists>x. tensor_max m = Inr x"
  by (cases "concat m") (simp_all add: tensor_max_def)

lemma length_transpose_01: "m \<noteq> [] \<Longrightarrow> length (transpose_01 m) = length (hd m)"
  by (cases m) (simp_all add: transpose_01_def)

lemma rows_transpose_01: "r \<in> set (transpose_01 m) \<Longrightarrow> length r = length m"
  by (cases m) (auto simp: transpose_01_def)

lemma length_cat_dim1: "length (cat_dim1 ts) = 3"
  by (simp add: cat_dim1_def)

lemma hd_cat_dim1: "hd (cat_dim1 ts) = concat (map (\<lambda>t. t ! 0) ts)"
  by (simp add: cat_dim1_def upt_rec [of 0])

lemma telescope:
  fixes E :: "nat \<Rightarrow> int"
  shows "(\<Sum>i\<leftarrow>[0..<m]. E i - (if i = 0 then 0 else E (i - 1))) = (if m = 0 then 0 else E (m - 1))"
  by (induction m) simp_all


lemma length_cumsum_from: "length (cumsum_from acc xs) = length xs"
  by (induction xs arbitrary: acc) simp_all

lemma length_cumsum: "length (cumsum xs) = length xs"
  by (simp add: cumsum_def length_cumsum_from)

lemma where_eq_bounds: "x \<in> set (where_eq xs v) \<Longrightarrow> 0 \<le> x \<and> x < int (length xs)"
  by (auto simp: where_eq_def)

lemma sequence_e_projr:
  "(\<And>x. x \<in> set xs \<Longrightarrow> \<exists>y. f x = Inr y) \<Longrightarrow>
     sequence_e (map f xs) = Inr (map (\<lambda>x. projr (f x)) xs)"
  by (rule sequence_e_map_Inr) fastforce

lemma widths_ok:
  "s \<noteq> 0 \<Longrightarrow>
     sequence_e (map (\<lambda>(t, h, w). floor_divide w s) g) = Inr (map (\<lambda>(t, h, w). w div s) g)"
  by (rule sequence_e_map_Inr) (auto simp: floor_divide_def)

lemma segment_offsets_ok:
  assumes "s \<noteq> 0" and "length starts = length grid" and "length ends = length grid"
    and "grid \<noteq> []"
  shows "\<exists>vsl tsl. segment_offsets s starts ends grid =
            Inr (map2 (\<lambda>a p. a - p + 1) starts (0 # butlast ends), vsl, tsl) \<and>
          length vsl = length grid \<and> length tsl = length grid"
proof -
  from assms have l1: "length (0 # butlast ends) = length starts"
    by (cases ends) auto
  from assms have l2: "length (0 # map (\<lambda>(t, h, w). w div s) (butlast grid)) = length starts"
    by (cases grid) auto
  show ?thesis
    using assms l1 l2
    by (simp add: segment_offsets_def broadcast2_def then_e_def widths_ok length_cumsum)
qed

lemma vision_segment_ids_ok:
  assumes "s \<noteq> 0" and "i < length grid" and "grid ! i = (t, h, w)"
    and "0 \<le> t" "0 \<le> h div s" "0 \<le> w div s"
  shows "\<exists>V. vision_segment_ids s grid vsl i = Inr V \<and> length V = 3 \<and>
           (\<forall>r \<in> set V. length r = nat (t * (h div s) * (w div s)))"
proof -
  from image_position_ids_lengths [OF assms(4,5,6)] obtain a b c where
    e: "image_position_ids t (h div s) (w div s) = Inr [a, b, c]" and
    l: "length a = nat (t * (h div s) * (w div s))" "length b = nat (t * (h div s) * (w div s))"
       "length c = nat (t * (h div s) * (w div s))"
    by blast
  show ?thesis
    using assms(1,2,3) e l
    by (simp add: vision_segment_ids_def floor_divide_def then_e_def add_scalar_def)
qed

lemma text_range_ok:
  assumes "0 \<le> lens ! i"
  shows "\<exists>T. text_range lens tsl i = Inr T \<and> length T = 3 \<and>
           (\<forall>r \<in> set T. length r = nat (lens ! i))"
  using assms
  by (simp add: text_range_def then_e_def arange_nonneg add_scalar_def)

lemma map2_same: "map2 f (map g xs) (map h xs) = map (\<lambda>x. f (g x) (h x)) xs"
  by (induction xs) simp_all

lemma last_concat_pairs:
  "0 < m \<Longrightarrow> last (concat (map (\<lambda>i. [T i, V i]) [0..<m])) = V (m - 1)"
  by (cases m) simp_all

lemma sum_len_pairs:
  fixes f :: "'a \<Rightarrow> nat"
  shows "(\<Sum>t\<leftarrow>concat (map (\<lambda>i. [T i, V i]) xs). f t) = (\<Sum>i\<leftarrow>xs. f (T i) + f (V i))"
  by (induction xs) simp_all


lemma combine_segments_rows:
  assumes m: "0 < m"
    and T: "\<And>i. i < m \<Longrightarrow> length (T i) = 3"
    and V: "\<And>i. i < m \<Longrightarrow> length (V i) = 3"
    and Vlast: "concat (V (m - 1)) \<noteq> []"
    and fin: "0 < int n - last ends"
  shows "\<exists>rows. combine_segments n ends (map T [0..<m]) (map V [0..<m]) = Inr rows \<and>
           length rows =
             (\<Sum>i\<leftarrow>[0..<m]. length (T i ! 0) + length (V i ! 0)) + nat (int n - last ends) \<and>
           (\<forall>r \<in> set rows. length r = 3)"
proof -
  define full where "full = concat (map (\<lambda>i. [T i, V i]) [0..<m])"
  have full: "concat (map2 (\<lambda>a b. [a, b]) (map T [0..<m]) (map V [0..<m])) = full"
    unfolding full_def by (rule arg_cong [where f = concat], rule map2_same)
  from m have ne: "full \<noteq> []" unfolding full_def by (cases m) simp_all
  from m have lst: "last full = V (m - 1)" unfolding full_def by (rule last_concat_pairs)
  from tensor_max_nonempty [OF Vlast] obtain mx where mx: "tensor_max (V (m - 1)) = Inr mx"
    by blast
  define k where "k = int n - last ends"
  from fin have kpos: "0 < k" unfolding k_def .
  then have ar: "arange k = Inr (map int [0..<nat k])"
    by (simp add: arange_nonneg)
  define trail where "trail = add_scalar (replicate 3 (map int [0..<nat k])) (mx + 1)"
  have c: "combine_segments n ends (map T [0..<m]) (map V [0..<m]) =
             Inr (transpose_01 (cat_dim1 (full @ [trail])))"
    unfolding combine_segments_def full Let_def k_def [symmetric]
    using ne kpos by (simp only: lst mx ar then_e_def sum.case if_True if_False trail_def)
  have l0: "length (trail ! 0) = nat k"
    unfolding trail_def by (simp add: add_scalar_def numeral_3_eq_3)
  have len: "length (transpose_01 (cat_dim1 (full @ [trail]))) =
             (\<Sum>i\<leftarrow>[0..<m]. length (T i ! 0) + length (V i ! 0)) + nat k"
  proof -
    have "length (cat_dim1 (full @ [trail])) = 3" by (rule length_cat_dim1)
    then have "cat_dim1 (full @ [trail]) \<noteq> []" by auto
    then have "length (transpose_01 (cat_dim1 (full @ [trail]))) =
               length (hd (cat_dim1 (full @ [trail])))"
      by (rule length_transpose_01)
    also have "\<dots> = length (concat (map (\<lambda>t. t ! 0) (full @ [trail])))"
      by (simp only: hd_cat_dim1)
    also have "\<dots> = (\<Sum>t\<leftarrow>full. length (t ! 0)) + length (trail ! 0)"
      by (simp add: length_concat comp_def)
    also have "\<dots> = (\<Sum>i\<leftarrow>[0..<m]. length (T i ! 0) + length (V i ! 0)) + nat k"
      unfolding full_def by (simp only: sum_len_pairs l0)
    finally show ?thesis .
  qed
  have rows: "\<forall>r \<in> set (transpose_01 (cat_dim1 (full @ [trail]))). length r = 3"
  proof
    fix r assume "r \<in> set (transpose_01 (cat_dim1 (full @ [trail])))"
    then have "length r = length (cat_dim1 (full @ [trail]))" by (rule rows_transpose_01)
    then show "length r = 3" by (simp only: length_cat_dim1)
  qed
  from c len rows show ?thesis unfolding k_def by blast
qed

lemma sum_nat_telescope:
  fixes E :: "nat \<Rightarrow> int" and a b :: "nat \<Rightarrow> nat"
  assumes "\<And>i. i < m \<Longrightarrow> int (a i) + int (b i) = E i - (if i = 0 then 0 else E (i - 1))"
    and "0 < m"
  shows "int (\<Sum>i\<leftarrow>[0..<m]. a i + b i) = E (m - 1)"
proof -
  have "int (\<Sum>i\<leftarrow>[0..<m]. a i + b i) = (\<Sum>i\<leftarrow>[0..<m]. int (a i) + int (b i))"
    by (simp add: sum_list_of_nat [symmetric] comp_def del: upt.simps)
  also have "\<dots> = (\<Sum>i\<leftarrow>[0..<m]. E i - (if i = 0 then 0 else E (i - 1)))"
    by (rule arg_cong [where f = sum_list], rule map_cong) (simp_all add: assms(1))
  also have "\<dots> = E (m - 1)"
    using assms(2) by (simp only: telescope) simp
  finally show ?thesis .
qed

lemma text_lengths_nth:
  assumes "length starts = length ends" and "i < length starts"
  shows "map2 (\<lambda>a p. a - p + 1) starts (0 # butlast ends) ! i =
           starts ! i - (if i = 0 then 0 else ends ! (i - 1)) + 1"
proof -
  from assms have l: "length (0 # butlast ends) = length starts"
    by (cases ends) auto
  have "(0 # butlast ends) ! i = (if i = 0 then 0 else ends ! (i - 1))"
    using assms by (cases i) (simp_all add: nth_butlast)
  with assms l show ?thesis by simp
qed

lemma position_ids_rows:
  assumes s: "s \<noteq> 0" and g: "grid \<noteq> []"
    and ls: "length starts = length grid" and le: "length ends = length grid"
    and G: "\<And>i. i < length grid \<Longrightarrow>
              (case grid ! i of
                 (t, h, w) \<Rightarrow> 0 < t \<and> 0 < h div s \<and> 0 < w div s \<and>
                    ends ! i - starts ! i - 1 = t * (h div s) * (w div s))"
    and O: "\<And>i. i < length grid - 1 \<Longrightarrow> ends ! i < starts ! (i + 1)"
    and s0: "0 \<le> starts ! 0" and fin: "last ends < int n"
  shows "\<exists>rows.
           then_e (segment_offsets s starts ends grid)
             (\<lambda>(text_lengths_between_vision, vision_segment_lengths, text_segment_lengths).
                then_e (sequence_e (map (vision_segment_ids s grid vision_segment_lengths)
                                        [0..<length starts]))
                  (\<lambda>llm_pos_ids_list.
                then_e (sequence_e (map (text_range text_lengths_between_vision
                                           text_segment_lengths)
                                        [0..<length text_lengths_between_vision]))
                  (\<lambda>text_ranges.
                combine_segments n ends text_ranges llm_pos_ids_list))) = Inr rows \<and>
           length rows = n \<and> (\<forall>r \<in> set rows. length r = 3)"
proof -
  let ?m = "length grid"
  let ?lens = "map2 (\<lambda>a p. a - p + 1) starts (0 # butlast ends)"
  from g have m: "0 < ?m" by simp
  from segment_offsets_ok [OF s ls le g] obtain vsl tsl where
    off: "segment_offsets s starts ends grid = Inr (?lens, vsl, tsl)"
    by blast
  from ls le g have ll: "length ?lens = ?m" by (cases ends) auto
  have lens_i: "?lens ! i = starts ! i - (if i = 0 then 0 else ends ! (i - 1)) + 1"
    if "i < ?m" for i
    using text_lengths_nth [of starts ends i] that ls le by simp
  have prod_i: "\<exists>t h w. grid ! i = (t, h, w) \<and> 0 < t \<and> 0 < h div s \<and> 0 < w div s \<and>
                  ends ! i - starts ! i - 1 = t * (h div s) * (w div s)"
    if "i < ?m" for i
    using G [OF that] by (cases "grid ! i") auto
  have prod_pos: "0 < ends ! i - starts ! i - 1" if "i < ?m" for i
  proof -
    from prod_i [OF that] obtain t h w where
      "0 < t" "0 < h div s" "0 < w div s" "ends ! i - starts ! i - 1 = t * (h div s) * (w div s)"
      by blast
    then show ?thesis by simp
  qed
  have lens_nonneg: "0 \<le> ?lens ! i" if "i < ?m" for i
  proof (cases i)
    case 0
    with lens_i [OF that] s0 show ?thesis by simp
  next
    case (Suc k)
    with that have "k < ?m - 1" by simp
    from O [OF this] lens_i [OF that] Suc show ?thesis by simp
  qed
  define V where "V i = projr (vision_segment_ids s grid vsl i)" for i
  define T where "T i = projr (text_range ?lens tsl i)" for i
  have Vok: "vision_segment_ids s grid vsl i = Inr (V i) \<and> length (V i) = 3 \<and>
             (\<forall>r \<in> set (V i). length r = nat (ends ! i - starts ! i - 1))"
    if "i < ?m" for i
  proof -
    from prod_i [OF that] obtain t h w where
      gi: "grid ! i = (t, h, w)" and p: "0 < t" "0 < h div s" "0 < w div s" and
      e: "ends ! i - starts ! i - 1 = t * (h div s) * (w div s)"
      by blast
    from p have "0 \<le> t" "0 \<le> h div s" "0 \<le> w div s" by simp_all
    from vision_segment_ids_ok [OF s that gi this, of vsl] e show ?thesis
      unfolding V_def by auto
  qed
  have Tok: "text_range ?lens tsl i = Inr (T i) \<and> length (T i) = 3 \<and>
             (\<forall>r \<in> set (T i). length r = nat (?lens ! i))"
    if "i < ?m" for i
    using text_range_ok [OF lens_nonneg [OF that], of tsl] unfolding T_def by auto
  have seqV: "sequence_e (map (vision_segment_ids s grid vsl) [0..<length starts]) =
                Inr (map V [0..<?m])"
    unfolding ls by (rule sequence_e_map_Inr) (simp add: Vok)
  have seqT: "sequence_e (map (text_range ?lens tsl) [0..<length ?lens]) = Inr (map T [0..<?m])"
    unfolding ll by (rule sequence_e_map_Inr) (simp add: Tok)
  have row0: "length (x ! 0) = k" if "length x = 3" "\<forall>r \<in> set x. length r = k"
    for x :: "int list list" and k
    using that by (cases x) auto
  have Vlast: "concat (V (?m - 1)) \<noteq> []"
  proof -
    from m have i: "?m - 1 < ?m" by simp
    from Vok [OF i] have "length (V (?m - 1) ! 0) = nat (ends ! (?m - 1) - starts ! (?m - 1) - 1)"
      by (intro row0) simp_all
    with prod_pos [OF i] have "V (?m - 1) ! 0 \<noteq> []" by auto
    moreover from Vok [OF i] have "V (?m - 1) ! 0 \<in> set (V (?m - 1))" by simp
    ultimately show ?thesis by auto
  qed
  from fin have fin': "0 < int n - last ends" by simp
  from combine_segments_rows [of ?m T V n ends, OF m _ _ Vlast fin'] Tok Vok
  obtain rows where
    c: "combine_segments n ends (map T [0..<?m]) (map V [0..<?m]) = Inr rows" and
    len: "length rows =
            (\<Sum>i\<leftarrow>[0..<?m]. length (T i ! 0) + length (V i ! 0)) + nat (int n - last ends)" and
    r3: "\<forall>r \<in> set rows. length r = 3"
    by blast
  have lastE: "last ends = ends ! (?m - 1)"
  proof -
    from le g have "ends \<noteq> []" by auto
    then have "last ends = ends ! (length ends - 1)" by (rule last_conv_nth)
    with le show ?thesis by simp
  qed
  have "int (\<Sum>i\<leftarrow>[0..<?m]. length (T i ! 0) + length (V i ! 0)) = ends ! (?m - 1)"
  proof (rule sum_nat_telescope [OF _ m])
    fix i assume i: "i < ?m"
    from Tok [OF i] have a: "length (T i ! 0) = nat (?lens ! i)" by (intro row0) simp_all
    from Vok [OF i] have b: "length (V i ! 0) = nat (ends ! i - starts ! i - 1)"
      by (intro row0) simp_all
    from lens_nonneg [OF i] prod_pos [OF i] a b lens_i [OF i]
    show "int (length (T i ! 0)) + int (length (V i ! 0)) =
            ends ! i - (if i = 0 then 0 else ends ! (i - 1))"
      by simp
  qed
  with len lastE fin have "length rows = n" by simp
  with c r3 show ?thesis
    by (simp only: off then_e_def sum.case prod.case seqV seqT) simp
qed


text \<open>
  Claim C9. For an input whose vision runs match its grids (as many start markers and
  end markers as grids, the run between the \<open>i\<close>-th pair holding exactly
  \<open>t * (h div s) * (w div s)\<close> tokens for the \<open>i\<close>-th grid, every end marker before
  the next start marker, positive extents), \<open>get_position_ids\<close> returns a tensor with
  one row of three entries per input token: the leading text segments (each up to and
  including its start marker), the vision segments and the trailing text (from the
  last end marker on) add up to the input length.
\<close>

theorem position_ids_row_count:
  assumes "vision_runs_match spatial_merge_size vision_start_token_id vision_end_token_id
             input_ids grid"
  shows "\<exists>rows. get_position_ids spatial_merge_size vision_start_token_id vision_end_token_id
                  input_ids (Some grid) = Inr rows \<and>
                length rows = length input_ids \<and> list_all (\<lambda>r. length r = 3) rows"
proof -
  let ?starts = "where_eq input_ids vision_start_token_id"
  let ?ends = "where_eq input_ids vision_end_token_id"
  from assms have s: "spatial_merge_size \<noteq> 0" and g: "grid \<noteq> []"
    and ls: "length ?starts = length grid" and le: "length ?ends = length grid"
    and G: "\<And>i. i < length grid \<Longrightarrow>
              (case grid ! i of
                 (t, h, w) \<Rightarrow> 0 < t \<and> 0 < h div spatial_merge_size \<and>
                    0 < w div spatial_merge_size \<and>
                    ?ends ! i - ?starts ! i - 1 =
                      t * (h div spatial_merge_size) * (w div spatial_merge_size))"
    and O: "\<And>i. i < length grid - 1 \<Longrightarrow> ?ends ! i < ?starts ! (i + 1)"
    by (simp_all add: vision_runs_match_def Let_def list_all_iff)
  from ls g have "?starts ! 0 \<in> set ?starts" by (intro nth_mem) simp
  then have s0: "0 \<le> ?starts ! 0" using where_eq_bounds by blast
  from le g have "?ends \<noteq> []" by auto
  then have "last ?ends \<in> set ?ends" by simp
  then have fin: "last ?ends < int (length input_ids)" using where_eq_bounds by blast
  from position_ids_rows [OF s g ls le G O s0 fin]
  show ?thesis
    by (simp add: get_position_ids_def Let_def list_all_iff)
qed

theorem position_ids_row_count_witness:
  "vision_runs_match 1 1 2 [1, 0, 0, 2, 5, 1, 0, 0, 0, 0, 0, 0, 2] [(1, 1, 2), (1, 2, 3)] \<and>
   (\<exists>rows. get_position_ids 1 1 2 [1, 0, 0, 2, 5, 1, 0, 0, 0, 0, 0, 0, 2]
              (Some [(1, 1, 2), (1, 2, 3)]) = Inr rows \<and>
            length rows = length [1, 0, 0, 2, 5, 1, 0, 0, 0, 0, 0, 0, 2 :: int] \<and>
            list_all (\<lambda>r. length r = 3) rows)"
proof -
  have w: "vision_runs_match 1 1 2 [1, 0, 0, 2, 5, 1, 0, 0, 0, 0, 0, 0, 2]
             [(1, 1, 2), (1, 2, 3)]"
    by code_simp
  from w position_ids_row_count [OF w] show ?thesis by blast
qed

section \<open>The attention mask of the vision tower\<close>

text \<open>
  Inside the mask the blocks are as expected: for non-negative cumulative lengths and
  positions \<open>i\<close>, \<open>j\<close> below \<open>max_seqlen\<close>, the mask lets \<open>i\<close> attend to \<open>j\<close> exactly
  when both lie in one segment, in either direction (the mask is not causal).
\<close>

lemma set_block_shape:
  "length (set_block m lo hi) = length m \<and>
   (\<forall>row \<in> set (set_block m lo hi). length row = length m)"
  by (auto simp: set_block_def Let_def)

lemma set_block_nth:
  assumes "r < length m" and "c < length m"
  shows "set_block m lo hi ! r ! c =
           ((slice_bound (length m) lo \<le> r \<and> r < slice_bound (length m) hi \<and>
             slice_bound (length m) lo \<le> c \<and> c < slice_bound (length m) hi) \<or> m ! r ! c)"
  using assms by (auto simp: set_block_def Let_def)

lemma fold_set_block_shape:
  assumes "\<forall>row \<in> set m. length row = length m"
  shows "length (fold (\<lambda>i m. set_block m (cu ! (i - 1)) (cu ! i)) ks m) = length m \<and>
         (\<forall>row \<in> set (fold (\<lambda>i m. set_block m (cu ! (i - 1)) (cu ! i)) ks m).
            length row = length m)"
  using assms
proof (induction ks arbitrary: m)
  case Nil
  then show ?case by simp
next
  case (Cons k ks)
  from set_block_shape [of m "cu ! (k - 1)" "cu ! k"]
  have l: "length (set_block m (cu ! (k - 1)) (cu ! k)) = length m"
    and rws: "\<forall>row \<in> set (set_block m (cu ! (k - 1)) (cu ! k)).
               length row = length (set_block m (cu ! (k - 1)) (cu ! k))"
    by simp_all
  from Cons.IH [OF rws] l show ?case by simp
qed

lemma fold_set_block:
  assumes "r < length m" and "c < length m"
  shows "length (fold (\<lambda>i m. set_block m (cu ! (i - 1)) (cu ! i)) ks m) = length m \<and>
         fold (\<lambda>i m. set_block m (cu ! (i - 1)) (cu ! i)) ks m ! r ! c =
           (list_ex (\<lambda>k. slice_bound (length m) (cu ! (k - 1)) \<le> r \<and>
                          r < slice_bound (length m) (cu ! k) \<and>
                          slice_bound (length m) (cu ! (k - 1)) \<le> c \<and>
                          c < slice_bound (length m) (cu ! k)) ks \<or> m ! r ! c)"
  using assms
proof (induction ks arbitrary: m)
  case Nil
  then show ?case by simp
next
  case (Cons k ks)
  have l: "length (set_block m (cu ! (k - 1)) (cu ! k)) = length m"
    using set_block_shape by blast
  from Cons.prems l have r': "r < length (set_block m (cu ! (k - 1)) (cu ! k))"
    and c': "c < length (set_block m (cu ! (k - 1)) (cu ! k))" by simp_all
  from Cons.IH [OF r' c'] set_block_nth [OF Cons.prems, of "cu ! (k - 1)" "cu ! k"] l
  show ?case by auto
qed

lemma slice_bound_nonneg:
  "0 \<le> k \<Longrightarrow> r < n \<Longrightarrow>
     (slice_bound n k \<le> r) = (k \<le> int r) \<and> (r < slice_bound n k) = (int r < k)"
  by (auto simp: slice_bound_def)

lemma attention_mask_within_bounds:
  assumes "attention_mask cu_seqlens max_seqlen = Inr m"
    and "\<forall>x \<in> set cu_seqlens. 0 \<le> x"
    and "i < nat max_seqlen" and "j < nat max_seqlen"
  shows "permitted m i j = same_segment cu_seqlens i j"
proof -
  let ?n = "nat max_seqlen"
  let ?z = "replicate ?n (replicate ?n False)"
  from assms(1) have m: "m = fold (\<lambda>i m. set_block m (cu_seqlens ! (i - 1)) (cu_seqlens ! i))
                               [1..<length cu_seqlens] ?z"
    by (simp add: attention_mask_def split: if_splits)
  from assms(3,4) have i: "i < length ?z" and j: "j < length ?z" by simp_all
  from fold_set_block [OF i j, of cu_seqlens "[1..<length cu_seqlens]"] assms(3,4)
  have len: "length m = ?n"
    and ent: "m ! i ! j =
      list_ex (\<lambda>k. slice_bound ?n (cu_seqlens ! (k - 1)) \<le> i \<and>
                    i < slice_bound ?n (cu_seqlens ! k) \<and>
                    slice_bound ?n (cu_seqlens ! (k - 1)) \<le> j \<and>
                    j < slice_bound ?n (cu_seqlens ! k)) [1..<length cu_seqlens]"
    unfolding m by simp_all
  have rowlen: "length (m ! i) = ?n"
  proof -
    have "\<forall>row \<in> set ?z. length row = length ?z" by simp
    from fold_set_block_shape [OF this, of cu_seqlens "[1..<length cu_seqlens]"]
    have "\<forall>row \<in> set m. length row = ?n" unfolding m by simp
    moreover from len assms(3) have "m ! i \<in> set m" by simp
    ultimately show ?thesis by blast
  qed
  have eq: "(slice_bound ?n (cu_seqlens ! (k - 1)) \<le> i \<and> i < slice_bound ?n (cu_seqlens ! k) \<and>
             slice_bound ?n (cu_seqlens ! (k - 1)) \<le> j \<and> j < slice_bound ?n (cu_seqlens ! k)) =
            (cu_seqlens ! (k - 1) \<le> int i \<and> int i < cu_seqlens ! k \<and>
             cu_seqlens ! (k - 1) \<le> int j \<and> int j < cu_seqlens ! k)"
    if "k \<in> set [1..<length cu_seqlens]" for k
  proof -
    from that have "cu_seqlens ! (k - 1) \<in> set cu_seqlens" "cu_seqlens ! k \<in> set cu_seqlens"
      by (auto intro: nth_mem)
    with assms(2) have "0 \<le> cu_seqlens ! (k - 1)" "0 \<le> cu_seqlens ! k" by blast+
    with slice_bound_nonneg assms(3,4) show ?thesis by presburger
  qed
  have "permitted m i j = (m ! i ! j)"
    using len rowlen assms(3,4) by (simp add: permitted_def)
  also have "\<dots> = same_segment cu_seqlens i j"
    unfolding ent same_segment_def list_ex_iff using eq by blast
  finally show ?thesis .
qed

text \<open>
  Claim C10. The claim is that the mask lets position \<open>i\<close> attend to position \<open>j\<close>
  exactly when both lie in the same segment of \<open>cu_seqlens\<close>. For one grid with two
  temporal frames of \<open>2 * 2\<close> patches, \<open>Qwen2VisionModel.forward\<close> computes
  \<open>cu_seqlens = [0, 4, 8]\<close> and \<open>max_seqlen = 4\<close>, the longest segment, and the mask
  built from them has 4 rows and 4 columns for 8 positions: the block of the second
  segment falls outside it, and positions 4 and 5, which share that segment, have no
  entry in the mask.
\<close>

theorem vision_mask_drops_later_segments:
  "vision_cu_seqlens [(2, 2, 2)] = Inr ([0, 4, 8], 4) \<and>
   attention_mask [0, 4, 8] 4 = Inr (replicate 4 (replicate 4 True)) \<and>
   same_segment [0, 4, 8] 4 5 \<and>
   \<not> permitted (replicate 4 (replicate 4 True)) 4 5"
  by code_simp

end
